theory Spec2Isabelle
  imports
    Main
    "HOL-Library.Word"
    "HOL-Library.Char_ord"
    "HOL-Library.List_Lexorder"
    "HOL-Library.Multiset"
begin

section \<open>Go library functions used by the handlers\<close>

text \<open>
  Go strings are byte sequences; they are modelled as \<^typ>\<open>string\<close> (a list of 8-bit
  characters). With \<open>Char_ord\<close> and \<open>List_Lexorder\<close> the order on \<^typ>\<open>string\<close> is
  the byte-wise lexicographic order that Go's \<open><\<close> on strings and \<open>sort.Strings\<close> use.
\<close>

text \<open>
  \<open>strings.Replace(s, old, new, n)\<close> for a non-empty pattern: the first \<open>n\<close>
  non-overlapping occurrences of \<open>old\<close>, found left to right, are replaced by \<open>new\<close>;
  a negative \<open>n\<close> means no limit. Both call sites of the repository use a pattern that
  starts with the separator, so the pattern is passed as its first byte \<open>o\<close> and its
  rest \<open>os\<close>: the empty pattern, which Go treats specially, is excluded by the type.
\<close>

function Replace :: "string \<Rightarrow> char \<Rightarrow> string \<Rightarrow> string \<Rightarrow> int \<Rightarrow> string" where
  "Replace s o' os new n =
     (if o' # os = new \<or> n = 0 then s
      else (case s of
              [] \<Rightarrow> []
            | c # cs \<Rightarrow>
                if take (Suc (length os)) s = o' # os
                then new @ Replace (drop (length os) cs) o' os new (n - 1)
                else c # Replace cs o' os new n))"
  by pat_completeness auto
termination
  by (relation "measure (\<lambda>(s, o', os, new, n). length s)") auto

declare Replace.simps [simp del]

text \<open>\<open>strings.ReplaceAll(s, old, new)\<close> is \<open>Replace(s, old, new, -1)\<close>.\<close>

definition ReplaceAll :: "string \<Rightarrow> char \<Rightarrow> string \<Rightarrow> string \<Rightarrow> string" where
  "ReplaceAll s o' os new = Replace s o' os new (- 1)"

text \<open>\<open>strings.Join(elems, sep)\<close>.\<close>

fun Join :: "string list \<Rightarrow> string \<Rightarrow> string" where
  "Join [] sep = []"
| "Join [x] sep = x"
| "Join (x # y # ys) sep = x @ sep @ Join (y # ys) sep"

text \<open>
  \<open>sort.Strings\<close> sorts a slice of strings into increasing order. Equal strings are
  indistinguishable, so the result is the unique sorted permutation.
\<close>

definition sort_Strings :: "string list \<Rightarrow> string list" where
  "sort_Strings data = sort data"

text \<open>
  \<open>filepath.Base\<close> on a system whose separator is \<open>/\<close>: the empty path gives \<open>.\<close>,
  trailing separators are dropped, the last element is kept, and a path of separators
  only gives a single separator.
\<close>

definition Base :: "string \<Rightarrow> string" where
  "Base path =
     (if path = [] then ''.''
      else
        let stripped = rev (dropWhile (\<lambda>c. c = CHR ''/'') (rev path));
            lastel = rev (takeWhile (\<lambda>c. c \<noteq> CHR ''/'') (rev stripped))
        in if lastel = [] then ''/'' else lastel)"

text \<open>
  \<open>io.ReadAll\<close> on a reader: the stream is represented by the bytes it yields and the
  error that ends it (\<open>None\<close> when it ends with EOF). \<open>ReadAll\<close> returns the data it
  read together with that error. The entry handed to \<open>Write\<close> and its reader are
  taken to be non-nil.
\<close>

type_synonym bytes = "8 word list"

datatype io_Reader = ReaderOf bytes "string option"

fun ReadAll :: "io_Reader \<Rightarrow> bytes \<times> string option" where
  "ReadAll (ReaderOf b err) = (b, err)"

text \<open>\<open>binary.Size\<close> of a byte slice is its length; of the nil slice, 0.\<close>

definition binary_Size :: "bytes \<Rightarrow> nat" where
  "binary_Size b = length b"

section \<open>Data model\<close>

text \<open>
  A Go \<open>error\<close> value is represented by its message. A call either returns normally,
  returns an error, or panics; \<open>fault\<close> separates the last two.
\<close>

datatype fault = Panic string | Error string

text \<open>
  \<open>time.Time\<close>: the zero value of the type, or the instant \<open>time.Unix(sec, 0)\<close>.
\<close>

datatype Time = ZeroTime | Unix int

text \<open>
  \<open>os.FileInfo\<close> as the handlers see it, with the fields of \<open>utils.VirtualFile\<close>.
\<close>

record VirtualFile =
  FName :: string
  FIsDir :: bool
  FSize :: int
  FModTime :: Time

text \<open>\<open>db.User\<close>, \<open>storage.Bucket\<close> and \<open>db.Project\<close>, with the fields the handlers read.\<close>

record User =
  user_ID :: string
  user_Name :: string

record Bucket =
  bucket_Name :: string

record Project =
  project_UserID :: string
  project_Name :: string
  project_ProjectDir :: string

text \<open>\<open>utils.FileEntry\<close>: one incoming file.\<close>

record FileEntry =
  Filepath :: string
  Size :: int
  Mtime :: int
  Reader :: io_Reader

text \<open>\<open>FileData\<close>: the payload handed to the storage write.\<close>

record FileData =
  data_FileEntry :: FileEntry
  Text :: bytes
  data_User :: User
  data_Bucket :: Bucket
  BucketQuota :: "64 word"

text \<open>
  The session context. Its four keys are private types of the package, so each slot is
  either unset (\<open>None\<close>) or holds a value of the one type the package stores under it.
  The user and project slots hold pointers, which may themselves be nil (the inner
  \<open>None\<close>).
\<close>

record Ctx =
  ctxUserKey :: "User option option"
  ctxBucketKey :: "Bucket option"
  ctxBucketQuotaKey :: "64 word option"
  ctxProjectKey :: "Project option option"

record Session =
  sess_User :: string
  Command :: "string list"
  PublicKey :: "string option"
  Context :: Ctx

section \<open>External collaborators\<close>

text \<open>
  The database, the object storage, the logger, the transport and the storage write are
  outside the two source files. Each is a parameter: a function on an opaque backend
  state \<open>'w\<close>. Every call made to one of them is recorded, in order, in \<open>calls\<close>.
  A call that returns a Go \<open>(value, error)\<close> pair returns either the error's message
  or the value; a record returned without error is a non-nil pointer.
\<close>

datatype logarg = ArgString string | ArgUint "64 word"

datatype call =
    DB_FindUserForKey string string
  | DB_HasFeatureForUser string string
  | DB_FindProjectByName string string
  | DB_UpdateProject string string
  | DB_InsertProject string string string
  | Storage_UpsertBucket string
  | Storage_GetBucket string
  | Storage_GetBucketQuota Bucket
  | Storage_ListFiles Bucket string bool
  | Handler_writeAsset FileData
  | Logger_Infof string "logarg list"
  | Session_Write string
  | Utils_ErrorHandler string

record 'w world =
  backend :: 'w
  calls :: "call list"

definition invoke :: "call \<Rightarrow> ('w \<Rightarrow> 'r \<times> 'w) \<Rightarrow> 'w world \<Rightarrow> 'r \<times> 'w world" where
  "invoke c f w =
     (case f (backend w) of (r, b) \<Rightarrow> (r, \<lparr>backend = b, calls = calls w @ [c]\<rparr>))"

record 'w DB =
  FindUserForKey :: "string \<Rightarrow> string \<Rightarrow> 'w \<Rightarrow> (string + User) \<times> 'w"
  HasFeatureForUser :: "string \<Rightarrow> string \<Rightarrow> 'w \<Rightarrow> bool \<times> 'w"
  FindProjectByName :: "string \<Rightarrow> string \<Rightarrow> 'w \<Rightarrow> (string + Project) \<times> 'w"
  UpdateProject :: "string \<Rightarrow> string \<Rightarrow> 'w \<Rightarrow> string option \<times> 'w"
  InsertProject :: "string \<Rightarrow> string \<Rightarrow> string \<Rightarrow> 'w \<Rightarrow> (string + string) \<times> 'w"

record 'w ObjectStorage =
  UpsertBucket :: "string \<Rightarrow> 'w \<Rightarrow> (string + Bucket) \<times> 'w"
  GetBucket :: "string \<Rightarrow> 'w \<Rightarrow> (string + Bucket) \<times> 'w"
  GetBucketQuota :: "Bucket \<Rightarrow> 'w \<Rightarrow> (string + 64 word) \<times> 'w"
  ListFiles :: "Bucket \<Rightarrow> string \<Rightarrow> bool \<Rightarrow> 'w \<Rightarrow> (string + VirtualFile list) \<times> 'w"

record ConfigSite =
  AssetURL :: "string \<Rightarrow> string \<Rightarrow> string \<Rightarrow> string"
  Space :: string

text \<open>
  \<open>UploadAssetHandler\<close> with its three fields. The method \<open>writeAsset\<close> and the package
  functions \<open>util.KeyText\<close>, \<open>shared.GetAssetBucketName\<close> and \<open>shared.GetProjectName\<close>
  are defined outside the two source files and are carried as parameters as well.
\<close>

record 'w UploadAssetHandler =
  DBPool :: "'w DB"
  Cfg :: ConfigSite
  Storage :: "'w ObjectStorage"
  writeAsset :: "FileData \<Rightarrow> 'w \<Rightarrow> string option \<times> 'w"
  KeyText :: "Session \<Rightarrow> string + string"
  GetAssetBucketName :: "string \<Rightarrow> string"
  GetProjectName :: "FileEntry \<Rightarrow> string"

text \<open>The session's own \<open>Write\<close> and \<open>utils.ErrorHandler\<close>.\<close>

record 'w Transport =
  session_Write :: "Session \<Rightarrow> string \<Rightarrow> 'w \<Rightarrow> string option \<times> 'w"
  ErrorHandler :: "Session \<Rightarrow> string \<Rightarrow> 'w \<Rightarrow> 'w"

section \<open>The upload handler\<close>

subsection \<open>Reading the session context\<close>

text \<open>
  \<open>s.Context().Value(key)\<close> is nil for a key that was never set. \<open>getProject\<close> tests
  for that before its type assertion; the other three getters assert directly, and a
  single-valued type assertion on a nil interface panics.
\<close>

definition getProject :: "Session \<Rightarrow> Project option" where
  "getProject s = (case ctxProjectKey (Context s) of None \<Rightarrow> None | Some project \<Rightarrow> project)"

definition getBucket :: "Session \<Rightarrow> fault + Bucket" where
  "getBucket s =
     (case ctxBucketKey (Context s) of
        None \<Rightarrow> Inl (Panic ''interface conversion: interface {} is nil, not storage.Bucket'')
      | Some bucket \<Rightarrow>
          if bucket_Name bucket = []
          then Inl (Error ''bucket not set on `ssh.Context()` for connection'')
          else Inr bucket)"

definition getBucketQuota :: "Session \<Rightarrow> fault + 64 word" where
  "getBucketQuota s =
     (case ctxBucketQuotaKey (Context s) of
        None \<Rightarrow> Inl (Panic ''interface conversion: interface {} is nil, not uint64'')
      | Some q \<Rightarrow> Inr q)"

definition getUser :: "Session \<Rightarrow> fault + User" where
  "getUser s =
     (case ctxUserKey (Context s) of
        None \<Rightarrow> Inl (Panic ''interface conversion: interface {} is nil, not *db.User'')
      | Some None \<Rightarrow> Inl (Error ''user not set on `ssh.Context()` for connection'')
      | Some (Some user) \<Rightarrow> Inr user)"

subsection \<open>List\<close>

definition List :: "'w UploadAssetHandler \<Rightarrow> Session \<Rightarrow> string \<Rightarrow> 'w world
    \<Rightarrow> (fault + VirtualFile list) \<times> 'w world" where
  "List h s fpath w =
     (case getUser s of
        Inl f \<Rightarrow> (Inl f, w)
      | Inr user \<Rightarrow>
          let cleanFilename = Base fpath;
              bucketName = GetAssetBucketName h (user_ID user)
          in
          (case invoke (Storage_GetBucket bucketName) (GetBucket (Storage h) bucketName) w of
             (Inl err, w1) \<Rightarrow> (Inl (Error err), w1)
           | (Inr bucket, w1) \<Rightarrow>
               (if cleanFilename = [] \<or> cleanFilename = ''.''
                then
                  (let name = cleanFilename;
                       name = (if name = [] then ''/'' else name);
                       info = \<lparr>FName = name, FIsDir = True, FSize = 0, FModTime = ZeroTime\<rparr>
                   in (Inr ([] @ [info]), w1))
                else
                  (case invoke (Storage_ListFiles bucket fpath False)
                          (ListFiles (Storage h) bucket fpath False) w1 of
                     (Inl err, w2) \<Rightarrow> (Inl (Error err), w2)
                   | (Inr fileList, w2) \<Rightarrow> (Inr fileList, w2)))))"

subsection \<open>Validate\<close>

definition Validate :: "'w UploadAssetHandler \<Rightarrow> Session \<Rightarrow> 'w world
    \<Rightarrow> string option \<times> Session \<times> 'w world" where
  "Validate h s w =
     (case KeyText h s of
        Inl _ \<Rightarrow> (Some ''key not found'', s, w)
      | Inr key \<Rightarrow>
     (case invoke (DB_FindUserForKey (sess_User s) key)
             (FindUserForKey (DBPool h) (sess_User s) key) w of
        (Inl err, w1) \<Rightarrow> (Some err, s, w1)
      | (Inr user, w1) \<Rightarrow>
     if user_Name user = [] then (Some ''must have username set'', s, w1)
     else
     (case invoke (DB_HasFeatureForUser (user_ID user) ''pgs'')
             (HasFeatureForUser (DBPool h) (user_ID user) ''pgs'') w1 of
        (False, w2) \<Rightarrow> (Some ''you do not have access to this service'', s, w2)
      | (True, w2) \<Rightarrow>
     let assetBucket = GetAssetBucketName h (user_ID user)
     in
     (case invoke (Storage_UpsertBucket assetBucket) (UpsertBucket (Storage h) assetBucket) w2 of
        (Inl err, w3) \<Rightarrow> (Some err, s, w3)
      | (Inr bucket, w3) \<Rightarrow>
     let s1 = s\<lparr>Context := (Context s)\<lparr>ctxBucketKey := Some bucket\<rparr>\<rparr>
     in
     (case invoke (Storage_GetBucketQuota bucket) (GetBucketQuota (Storage h) bucket) w3 of
        (Inl err, w4) \<Rightarrow> (Some err, s1, w4)
      | (Inr totalFileSize, w4) \<Rightarrow>
     let s2 = s1\<lparr>Context := (Context s1)\<lparr>ctxBucketQuotaKey := Some totalFileSize\<rparr>\<rparr>;
         w5 = w4\<lparr>calls := calls w4 @
                [Logger_Infof ''(%s) bucket size is current (%d bytes)''
                   [ArgString (user_Name user), ArgUint totalFileSize]]\<rparr>;
         s3 = s2\<lparr>Context := (Context s2)\<lparr>ctxUserKey := Some (Some user)\<rparr>\<rparr>;
         w6 = w5\<lparr>calls := calls w5 @
                [Logger_Infof ''(%s) attempting to upload files to (%s)''
                   [ArgString (user_Name user), ArgString (Space (Cfg h))]]\<rparr>
     in (None, s3, w6))))))"

subsection \<open>Write\<close>

text \<open>
  The block of \<open>Write\<close> that finds, creates or updates the project when none is cached
  (\<open>if hasProject == nil { ... }\<close>). It yields the error it returns with, if any, and the
  session and world it leaves.
\<close>

definition Write_project :: "'w UploadAssetHandler \<Rightarrow> Session \<Rightarrow> User \<Rightarrow> string \<Rightarrow> 'w world
    \<Rightarrow> string option \<times> Session \<times> 'w world" where
  "Write_project h s user projectName w =
     (case invoke (DB_FindProjectByName (user_ID user) projectName)
             (FindProjectByName (DBPool h) (user_ID user) projectName) w of
        (Inr project, w1) \<Rightarrow>
          (case invoke (DB_UpdateProject (user_ID user) projectName)
                  (UpdateProject (DBPool h) (user_ID user) projectName) w1 of
             (Some err, w2) \<Rightarrow> (Some err, s, w2)
           | (None, w2) \<Rightarrow>
               (None, s\<lparr>Context := (Context s)\<lparr>ctxProjectKey := Some (Some project)\<rparr>\<rparr>, w2))
      | (Inl _, w1) \<Rightarrow>
          (case invoke (DB_InsertProject (user_ID user) projectName projectName)
                  (InsertProject (DBPool h) (user_ID user) projectName projectName) w1 of
             (Inl err, w2) \<Rightarrow> (Some err, s, w2)
           | (Inr _, w2) \<Rightarrow>
               (case invoke (DB_FindProjectByName (user_ID user) projectName)
                       (FindProjectByName (DBPool h) (user_ID user) projectName) w2 of
                  (Inl err, w3) \<Rightarrow> (Some err, s, w3)
                | (Inr project, w3) \<Rightarrow>
                    (None, s\<lparr>Context := (Context s)\<lparr>ctxProjectKey := Some (Some project)\<rparr>\<rparr>,
                     w3))))"

text \<open>
  \<open>Write\<close> returns the URL or the fault, the entry as it leaves it (\<open>entry.Size\<close> is
  assigned through the pointer), the session and the world.
\<close>

definition Write :: "'w UploadAssetHandler \<Rightarrow> Session \<Rightarrow> FileEntry \<Rightarrow> 'w world
    \<Rightarrow> (fault + string) \<times> FileEntry \<times> Session \<times> 'w world" where
  "Write h s entry w =
     (case getUser s of
        Inl f \<Rightarrow> (Inl f, entry, s, w)
      | Inr user \<Rightarrow>
     let origText = (case ReadAll (Reader entry) of (b, None) \<Rightarrow> b | (b, Some err) \<Rightarrow> []);
         fileSize = binary_Size origText;
         entry = entry\<lparr>Size := int fileSize\<rparr>
     in
     (case getBucket s of
        Inl f \<Rightarrow> (Inl f, entry, s, w)
      | Inr bucket \<Rightarrow>
     let hasProject = getProject s;
         projectName = GetProjectName h entry
     in
     (case (if hasProject = None then Write_project h s user projectName w else (None, s, w)) of
        (Some err, s1, w1) \<Rightarrow> (Inl (Error err), entry, s1, w1)
      | (None, s1, w1) \<Rightarrow>
     (case getBucketQuota s1 of
        Inl f \<Rightarrow> (Inl f, entry, s1, w1)
      | Inr bucketQuota \<Rightarrow>
     let data = \<lparr>data_FileEntry = entry, Text = origText, data_User = user,
                 data_Bucket = bucket, BucketQuota = bucketQuota\<rparr>
     in
     (case invoke (Handler_writeAsset data) (writeAsset h data) w1 of
        (Some err, w2) \<Rightarrow> (Inl (Error err), entry, s1, w2)
      | (None, w2) \<Rightarrow>
          (Inr (AssetURL (Cfg h) (user_Name user) projectName
                  (Replace (Filepath (data_FileEntry data)) (CHR ''/'') (projectName @ ''/'') [] 1)),
           entry, s1, w2))))))"

text \<open>
  The transport calls \<open>Write\<close> once per transferred file, in order, on the same session.
  A panic ends the run.
\<close>

fun Writes :: "'w UploadAssetHandler \<Rightarrow> Session \<Rightarrow> FileEntry list \<Rightarrow> 'w world
    \<Rightarrow> (fault + string) list \<times> Session \<times> 'w world" where
  "Writes h s [] w = ([], s, w)"
| "Writes h s (entry # rest) w =
     (case Write h s entry w of
        (Inl (Panic p), _, s1, w1) \<Rightarrow> ([Inl (Panic p)], s1, w1)
      | (r, _, s1, w1) \<Rightarrow>
          (case Writes h s1 rest w1 of (rs, s2, w2) \<Rightarrow> (r # rs, s2, w2)))"

text \<open>The calls that go to the project store.\<close>

fun is_project_call :: "call \<Rightarrow> bool" where
  "is_project_call (DB_FindProjectByName _ _) = True"
| "is_project_call (DB_UpdateProject _ _) = True"
| "is_project_call (DB_InsertProject _ _ _) = True"
| "is_project_call _ = False"

section \<open>The listing middleware\<close>

text \<open>
  The loop of \<open>list.Middleware\<close> over \<open>fileList\<close>, with \<open>data\<close> as the slice that
  \<open>append\<close> grows.
\<close>

fun names_loop :: "VirtualFile list \<Rightarrow> string list \<Rightarrow> string list" where
  "names_loop [] data = data"
| "names_loop (file # rest) data =
     (let name = ReplaceAll (FName file) (CHR ''/'') [] [];
          name = (if FIsDir file then name @ ''/'' else name)
      in names_loop rest (data @ [name]))"

text \<open>The bytes the middleware hands to \<open>session.Write\<close> for a file list.\<close>

definition listing_output :: "VirtualFile list \<Rightarrow> string" where
  "listing_output fileList = Join (sort_Strings (names_loop fileList [])) ''\<newline>''"

text \<open>
  An \<open>ssh.Handler\<close> runs on a session and returns nothing; it may panic. The middleware
  wraps the next handler \<open>sshHandler\<close>.
\<close>

type_synonym 'w Handler = "Session \<Rightarrow> 'w world \<Rightarrow> fault option \<times> Session \<times> 'w world"

definition Middleware :: "'w UploadAssetHandler \<Rightarrow> 'w Transport \<Rightarrow> 'w Handler \<Rightarrow> 'w Handler" where
  "Middleware writeHandler t sshHandler session w =
     (let cmd = Command session
      in
      if \<not> (length cmd > 1 \<and> cmd ! 0 = ''command'' \<and> cmd ! 1 = ''ls'')
      then sshHandler session w
      else
      (case Validate writeHandler session w of
         (Some err, s1, w1) \<Rightarrow>
           (None, s1, snd (invoke (Utils_ErrorHandler err) (\<lambda>b. ((), ErrorHandler t s1 err b)) w1))
       | (None, s1, w1) \<Rightarrow>
      (case List writeHandler s1 ''/'' w1 of
         (Inl (Panic p), w2) \<Rightarrow> (Some (Panic p), s1, w2)
       | (Inl (Error err), w2) \<Rightarrow>
           (None, s1, snd (invoke (Utils_ErrorHandler err) (\<lambda>b. ((), ErrorHandler t s1 err b)) w2))
       | (Inr fileList, w2) \<Rightarrow>
      (case invoke (Session_Write (listing_output fileList))
              (session_Write t s1 (listing_output fileList)) w2 of
         (Some err, w3) \<Rightarrow>
           (None, s1, snd (invoke (Utils_ErrorHandler err) (\<lambda>b. ((), ErrorHandler t s1 err b)) w3))
       | (None, w3) \<Rightarrow> (None, s1, w3)))))"

section \<open>A concrete deployment\<close>

text \<open>
  A small instance of the collaborators, on which the definitions can be evaluated: the
  backend state is the list of project names the database holds; one key resolves to
  the user \<open>alice\<close>, who has the feature; the storage lists two entries.
\<close>

definition example_handler :: "string list UploadAssetHandler" where
  "example_handler =
     \<lparr>DBPool =
        \<lparr>FindUserForKey = (\<lambda>name key b.
            (if key = ''ssh-ed25519 AAAA'' then Inr \<lparr>user_ID = ''1'', user_Name = ''alice''\<rparr>
             else Inl ''no user for key'', b)),
         HasFeatureForUser = (\<lambda>uid feature b. (feature = ''pgs'', b)),
         FindProjectByName = (\<lambda>uid name b.
            (if name \<in> set b
             then Inr \<lparr>project_UserID = uid, project_Name = name, project_ProjectDir = name\<rparr>
             else Inl ''project not found'', b)),
         UpdateProject = (\<lambda>uid name b. (None, b)),
         InsertProject = (\<lambda>uid name dir b. (Inr ''id'', name # b))\<rparr>,
      Cfg = \<lparr>AssetURL = (\<lambda>user project path. user @ ''-'' @ project @ ''.example/'' @ path),
             Space = ''pgs''\<rparr>,
      Storage =
        \<lparr>UpsertBucket = (\<lambda>name b. (Inr \<lparr>bucket_Name = name\<rparr>, b)),
         GetBucket = (\<lambda>name b. (Inr \<lparr>bucket_Name = name\<rparr>, b)),
         GetBucketQuota = (\<lambda>bucket b. (Inr 0, b)),
         ListFiles = (\<lambda>bucket path recursive b.
            (Inr [\<lparr>FName = ''site/'', FIsDir = True, FSize = 0, FModTime = ZeroTime\<rparr>,
                  \<lparr>FName = ''a/b.txt'', FIsDir = False, FSize = 3, FModTime = Unix 7\<rparr>], b))\<rparr>,
      writeAsset = (\<lambda>data b. (None, b)),
      KeyText = (\<lambda>s. case PublicKey s of None \<Rightarrow> Inl ''no public key'' | Some k \<Rightarrow> Inr k),
      GetAssetBucketName = (\<lambda>uid. ''static-'' @ uid),
      GetProjectName = (\<lambda>entry. takeWhile (\<lambda>c. c \<noteq> CHR ''/'') (drop 1 (Filepath entry)))\<rparr>"

definition example_session :: Session where
  "example_session =
     \<lparr>sess_User = ''alice'', Command = [''command'', ''ls''], PublicKey = Some ''ssh-ed25519 AAAA'',
      Context = \<lparr>ctxUserKey = None, ctxBucketKey = None, ctxBucketQuotaKey = None,
                 ctxProjectKey = None\<rparr>\<rparr>"

text \<open>The session as a successful \<open>Validate\<close> leaves it.\<close>

definition example_validated :: Session where
  "example_validated =
     example_session\<lparr>Context :=
       \<lparr>ctxUserKey = Some (Some \<lparr>user_ID = ''1'', user_Name = ''alice''\<rparr>),
        ctxBucketKey = Some \<lparr>bucket_Name = ''static-1''\<rparr>,
        ctxBucketQuotaKey = Some 0, ctxProjectKey = None\<rparr>\<rparr>"

definition example_world :: "string list world" where
  "example_world = \<lparr>backend = [], calls = []\<rparr>"

definition example_transport :: "string list Transport" where
  "example_transport = \<lparr>session_Write = (\<lambda>s out b. (None, b)), ErrorHandler = (\<lambda>s err b. b)\<rparr>"

text \<open>A next handler that leaves a mark in the call log.\<close>

definition example_next :: "string list Handler" where
  "example_next s w = (None, s, w\<lparr>calls := calls w @ [Session_Write ''next handler'']\<rparr>)"

text \<open>Two incoming files; the second one's stream breaks after two bytes.\<close>

definition example_entry1 :: FileEntry where
  "example_entry1 =
     \<lparr>Filepath = ''/blog/post1.md'', Size = 99, Mtime = 0, Reader = ReaderOf [1, 2, 3] None\<rparr>"

definition example_entry2 :: FileEntry where
  "example_entry2 =
     \<lparr>Filepath = ''/docs/readme.md'', Size = 2, Mtime = 0,
      Reader = ReaderOf [1, 2] (Some ''connection reset'')\<rparr>"

text \<open>Deployments in which the quota read, or the storage write, fails.\<close>

definition example_handler_no_quota :: "string list UploadAssetHandler" where
  "example_handler_no_quota =
     example_handler\<lparr>Storage := (Storage example_handler)
       \<lparr>GetBucketQuota := (\<lambda>bucket b. (Inl ''quota unavailable'', b))\<rparr>\<rparr>"

definition example_handler_write_fails :: "string list UploadAssetHandler" where
  "example_handler_write_fails =
     example_handler\<lparr>writeAsset := (\<lambda>data b. (Some ''quota exceeded'', b))\<rparr>"

text \<open>The validated session once the project \<open>blog\<close> has been resolved.\<close>

definition example_with_project :: Session where
  "example_with_project =
     example_validated\<lparr>Context := (Context example_validated)
       \<lparr>ctxProjectKey := Some (Some \<lparr>project_UserID = ''1'', project_Name = ''blog'',
                                      project_ProjectDir = ''blog''\<rparr>)\<rparr>\<rparr>"

text \<open>A second file of the project \<open>blog\<close>, and a backend that already holds that project.\<close>

definition example_entry3 :: FileEntry where
  "example_entry3 =
     \<lparr>Filepath = ''/blog/post2.md'', Size = 20, Mtime = 0, Reader = ReaderOf [4, 5] None\<rparr>"

definition example_world_blog :: "string list world" where
  "example_world_blog = \<lparr>backend = [''blog''], calls = []\<rparr>"

text \<open>
  Deployments in which one step of the project sequence fails: the update, the insert,
  or the lookup after an insert that stored nothing.
\<close>

definition example_handler_update_fails :: "string list UploadAssetHandler" where
  "example_handler_update_fails =
     example_handler\<lparr>DBPool := (DBPool example_handler)
       \<lparr>UpdateProject := (\<lambda>uid name b. (Some ''update failed'', b))\<rparr>\<rparr>"

definition example_handler_insert_fails :: "string list UploadAssetHandler" where
  "example_handler_insert_fails =
     example_handler\<lparr>DBPool := (DBPool example_handler)
       \<lparr>InsertProject := (\<lambda>uid name dir b. (Inl ''insert failed'', b))\<rparr>\<rparr>"

definition example_handler_refetch_fails :: "string list UploadAssetHandler" where
  "example_handler_refetch_fails =
     example_handler\<lparr>DBPool := (DBPool example_handler)
       \<lparr>InsertProject := (\<lambda>uid name dir b. (Inr ''id'', b))\<rparr>\<rparr>"

lemmas example_defs =
  example_handler_def example_session_def example_world_def example_transport_def
  example_validated_def example_next_def example_entry1_def example_entry2_def
  example_handler_no_quota_def example_handler_write_fails_def example_with_project_def
  example_entry3_def example_world_blog_def example_handler_update_fails_def
  example_handler_insert_fails_def example_handler_refetch_fails_def

section \<open>Properties of the library functions\<close>

lemma Replace_single_all:
  "n < 0 \<Longrightarrow> Replace s c [] [] n = filter (\<lambda>x. x \<noteq> c) s"
proof (induction s arbitrary: n)
  case Nil
  then show ?case by (simp add: Replace.simps)
next
  case (Cons a s)
  from Cons.prems have n1: "n - 1 < 0" and n0: "n \<noteq> 0" by simp_all
  show ?case
  proof (cases "a = c")
    case True
    have "Replace (a # s) c [] [] n = Replace s c [] [] (n - 1)"
      using True n0 by (subst Replace.simps) simp
    with Cons.IH [OF n1] True show ?thesis by simp
  next
    case False
    have "Replace (a # s) c [] [] n = a # Replace s c [] [] n"
      using False n0 by (subst Replace.simps) simp
    with Cons.IH [OF Cons.prems] False show ?thesis by simp
  qed
qed

lemma ReplaceAll_separator:
  "ReplaceAll s (CHR ''/'') [] [] = filter (\<lambda>x. x \<noteq> CHR ''/'') s"
  by (simp add: ReplaceAll_def Replace_single_all)

lemma Base_nonempty: "Base path \<noteq> []"
  by (simp add: Base_def Let_def)



lemma calls_invoke: "invoke c f w = (r, w1) \<Longrightarrow> calls w1 = calls w @ [c]"
  by (auto simp: invoke_def split: prod.splits)

lemma invoke_eq:
  "f (backend w) = (r, b) \<Longrightarrow> invoke c f w = (r, \<lparr>backend = b, calls = calls w @ [c]\<rparr>)"
  by (simp add: invoke_def)

lemma Base_examples: "Base [] = ''.''" "Base ''.'' = ''.''" "Base ''/'' = ''/''"
  by (simp_all add: Base_def)

lemma command_guard:
  "(1 < length cmd \<and> cmd ! 0 = a \<and> cmd ! 1 = b) \<longleftrightarrow> take 2 cmd = [a, b]"
proof (cases cmd)
  case Nil
  then show ?thesis by simp
next
  case (Cons x xs)
  then show ?thesis by (cases xs) auto
qed

lemma Validate_ok_user:
  "Validate h s w = (None, s1, w1) \<Longrightarrow> \<exists>user. getUser s1 = Inr user"
  by (auto simp: Validate_def getUser_def Let_def split: sum.splits prod.splits if_splits bool.splits)

lemma calls_List_user:
  "getUser s = Inr user \<Longrightarrow> List h s fpath w = (r, w1) \<Longrightarrow>
     (\<exists>rest. calls w1 = calls w @ rest \<and> rest \<noteq> []) \<and> (\<forall>p. r \<noteq> Inl (Panic p))"
  by (auto simp: List_def Let_def invoke_def split: sum.splits prod.splits if_splits)

lemma Middleware_listing:
  assumes "take 2 (Command session) = [''command'', ''ls'']"
  shows "\<exists>rest. calls (snd (snd (Middleware writeHandler t sshHandler session w))) =
                calls (snd (snd (Validate writeHandler session w))) @ rest \<and> rest \<noteq> []"
proof -
  obtain v s1 w1 where V: "Validate writeHandler session w = (v, s1, w1)"
    by (cases "Validate writeHandler session w") auto
  have guard: "1 < length (Command session) \<and> Command session ! 0 = ''command'' \<and>
               Command session ! 1 = ''ls''"
    using assms by (simp only: command_guard)
  show ?thesis
  proof (cases v)
    case (Some err)
    then show ?thesis using V guard by (simp add: Middleware_def invoke_def)
  next
    case None
    then obtain user where U: "getUser s1 = Inr user"
      using V Validate_ok_user by blast
    obtain r w2 where L: "List writeHandler s1 ''/'' w1 = (r, w2)"
      by (cases "List writeHandler s1 ''/'' w1") auto
    from calls_List_user [OF U L] obtain rest where
      R: "calls w2 = calls w1 @ rest" "rest \<noteq> []" and NP: "\<forall>p. r \<noteq> Inl (Panic p)" by blast
    show ?thesis
      using V None guard L R NP
      by (auto simp: Middleware_def invoke_def split: sum.splits fault.splits prod.splits option.splits)
  qed
qed

section \<open>Properties of Write\<close>

lemma Write_project_cases:
  assumes "Write_project h s user pn w = (r, s1, w1)"
  shows "(r \<noteq> None \<and> s1 = s) \<or>
         (r = None \<and>
          (\<exists>project. s1 = s\<lparr>Context := (Context s)\<lparr>ctxProjectKey := Some (Some project)\<rparr>\<rparr>) \<and>
          (calls w1 = calls w @ [DB_FindProjectByName (user_ID user) pn,
                                 DB_UpdateProject (user_ID user) pn] \<or>
           calls w1 = calls w @ [DB_FindProjectByName (user_ID user) pn,
                                 DB_InsertProject (user_ID user) pn pn,
                                 DB_FindProjectByName (user_ID user) pn]))"
  using assms
  by (auto simp: Write_project_def invoke_def split: prod.splits sum.splits option.splits)


lemma Write_project_quota:
  "Write_project h s user pn w = (r, s1, w1) \<Longrightarrow> getBucketQuota s1 = getBucketQuota s"
  by (drule Write_project_cases) (auto simp: getBucketQuota_def)


lemma Write_step:
  assumes U: "getUser s = Inr user" and B: "getBucket s = Inr bucket"
      and R: "ReadAll (Reader entry) = (b, rerr)"
      and O: "origText = (case rerr of None \<Rightarrow> b | Some e \<Rightarrow> [])"
      and P: "(if getProject s = None
            then Write_project h s user (GetProjectName h (entry\<lparr>Size := int (length origText)\<rparr>)) w
            else (None, s, w)) = (r, s1, w1)"
  shows "Write h s entry w =
     (case r of
        Some err \<Rightarrow> (Inl (Error err), entry\<lparr>Size := int (length origText)\<rparr>, s1, w1)
      | None \<Rightarrow>
         (case getBucketQuota s of
            Inl f \<Rightarrow> (Inl f, entry\<lparr>Size := int (length origText)\<rparr>, s1, w1)
          | Inr bucketQuota \<Rightarrow>
             (case writeAsset h \<lparr>data_FileEntry = entry\<lparr>Size := int (length origText)\<rparr>,
                      Text = origText, data_User = user, data_Bucket = bucket,
                      BucketQuota = bucketQuota\<rparr> (backend w1) of
                (werr, b2) \<Rightarrow>
                  (case werr of
                     Some err \<Rightarrow> Inl (Error err)
                   | None \<Rightarrow>
                       Inr (AssetURL (Cfg h) (user_Name user)
                              (GetProjectName h (entry\<lparr>Size := int (length origText)\<rparr>))
                              (Replace (Filepath entry) (CHR ''/'')
                                 (GetProjectName h (entry\<lparr>Size := int (length origText)\<rparr>) @ ''/'')
                                 [] 1)),
                   entry\<lparr>Size := int (length origText)\<rparr>, s1,
                   \<lparr>backend = b2,
                    calls = calls w1 @
                      [Handler_writeAsset
                         \<lparr>data_FileEntry = entry\<lparr>Size := int (length origText)\<rparr>,
                          Text = origText, data_User = user, data_Bucket = bucket,
                          BucketQuota = bucketQuota\<rparr>]\<rparr>))))"
proof -
  have Q: "getBucketQuota s1 = getBucketQuota s"
    using P by (auto simp: Write_project_quota split: if_splits)
  have T: "(case ReadAll (Reader entry) of (b, None) \<Rightarrow> b | (b, Some err) \<Rightarrow> []) = origText"
    using R O by (cases rerr) simp_all
  have W: "Write h s entry w =
     (case (r, s1, w1) of
        (Some err, s1, w1) \<Rightarrow> (Inl (Error err), entry\<lparr>Size := int (length origText)\<rparr>, s1, w1)
      | (None, s1, w1) \<Rightarrow>
     (case getBucketQuota s1 of
        Inl f \<Rightarrow> (Inl f, entry\<lparr>Size := int (length origText)\<rparr>, s1, w1)
      | Inr bucketQuota \<Rightarrow>
     (case invoke (Handler_writeAsset \<lparr>data_FileEntry = entry\<lparr>Size := int (length origText)\<rparr>,
                      Text = origText, data_User = user, data_Bucket = bucket,
                      BucketQuota = bucketQuota\<rparr>)
               (writeAsset h \<lparr>data_FileEntry = entry\<lparr>Size := int (length origText)\<rparr>,
                      Text = origText, data_User = user, data_Bucket = bucket,
                      BucketQuota = bucketQuota\<rparr>) w1 of
        (Some err, w2) \<Rightarrow> (Inl (Error err), entry\<lparr>Size := int (length origText)\<rparr>, s1, w2)
      | (None, w2) \<Rightarrow>
          (Inr (AssetURL (Cfg h) (user_Name user)
                  (GetProjectName h (entry\<lparr>Size := int (length origText)\<rparr>))
                  (Replace (Filepath (data_FileEntry \<lparr>data_FileEntry = entry\<lparr>Size := int (length origText)\<rparr>,
                      Text = origText, data_User = user, data_Bucket = bucket,
                      BucketQuota = bucketQuota\<rparr>)) (CHR ''/'')
                     (GetProjectName h (entry\<lparr>Size := int (length origText)\<rparr>) @ ''/'') [] 1)),
           entry\<lparr>Size := int (length origText)\<rparr>, s1, w2))))"
    unfolding Write_def Let_def binary_Size_def T U B P [symmetric] by simp
  show ?thesis
  proof (cases r)
    case (Some err)
    then show ?thesis unfolding W by simp
  next
    case None
    show ?thesis
    proof (cases "getBucketQuota s")
      case (Inl f)
      then show ?thesis unfolding W using None Q by simp
    next
      case (Inr q)
      obtain werr b2 where A: "writeAsset h \<lparr>data_FileEntry = entry\<lparr>Size := int (length origText)\<rparr>,
                      Text = origText, data_User = user, data_Bucket = bucket,
                      BucketQuota = q\<rparr> (backend w1) = (werr, b2)"
        by fastforce
      show ?thesis unfolding W using None Q Inr A by (cases werr) (simp_all add: invoke_def)
    qed
  qed
qed


lemma Write_no_user: "getUser s = Inl f \<Longrightarrow> Write h s entry w = (Inl f, entry, s, w)"
  by (simp add: Write_def)

lemma Write_no_bucket:
  "getUser s = Inr user \<Longrightarrow> getBucket s = Inl f \<Longrightarrow>
     \<exists>e'. Write h s entry w = (Inl f, e', s, w)"
  by (simp add: Write_def Let_def)

lemma Write_step_effect:
  assumes U: "getUser s = Inr user" and B: "getBucket s = Inr bucket"
      and R: "ReadAll (Reader entry) = (b, rerr)"
      and O: "origText = (case rerr of None \<Rightarrow> b | Some e \<Rightarrow> [])"
      and P: "(if getProject s = None
            then Write_project h s user (GetProjectName h (entry\<lparr>Size := int (length origText)\<rparr>)) w
            else (None, s, w)) = (r, s1, w1)"
      and W: "Write h s entry w = (res, e', s', w')"
  shows "e' = entry\<lparr>Size := int (length origText)\<rparr> \<and> s' = s1 \<and>
         (calls w' = calls w1 \<or> (\<exists>data. calls w' = calls w1 @ [Handler_writeAsset data])) \<and>
         (r \<noteq> None \<longrightarrow> (\<exists>err. res = Inl (Error err)))"
  using W unfolding Write_step [OF U B R O P]
  by (auto split: option.splits sum.splits prod.splits)

lemma filter_project_writeAsset [simp]:
  "filter is_project_call (cs @ [Handler_writeAsset data]) = filter is_project_call cs"
  by simp

lemma Write_session_cases:
  assumes W: "Write h s entry w = (res, e', s', w')"
  shows "(s' = s \<and> (getProject s \<noteq> None \<longrightarrow>
              filter is_project_call (calls w') = filter is_project_call (calls w)) \<and>
            (getProject s = None \<longrightarrow> (\<exists>f. res = Inl f))) \<or>
         (getProject s = None \<and>
          (\<exists>user project. getUser s = Inr user \<and>
             s' = s\<lparr>Context := (Context s)\<lparr>ctxProjectKey := Some (Some project)\<rparr>\<rparr> \<and>
             (filter is_project_call (calls w') =
                filter is_project_call (calls w) @
                  [DB_FindProjectByName (user_ID user) (GetProjectName h e'),
                   DB_UpdateProject (user_ID user) (GetProjectName h e')] \<or>
              filter is_project_call (calls w') =
                filter is_project_call (calls w) @
                  [DB_FindProjectByName (user_ID user) (GetProjectName h e'),
                   DB_InsertProject (user_ID user) (GetProjectName h e') (GetProjectName h e'),
                   DB_FindProjectByName (user_ID user) (GetProjectName h e')])))"
proof (cases "getUser s")
  case (Inl f)
  then show ?thesis using W by (auto simp: Write_no_user)
next
  case U: (Inr user)
  show ?thesis
  proof (cases "getBucket s")
    case (Inl f)
    then show ?thesis using W Write_no_bucket [OF U Inl, of h entry w] by auto
  next
    case B: (Inr bucket)
    obtain b rerr where R: "ReadAll (Reader entry) = (b, rerr)"
      by (cases "ReadAll (Reader entry)")
    define origText where "origText = (case rerr of None \<Rightarrow> b | Some (e::string) \<Rightarrow> [])"
    obtain r s1 w1 where P: "(if getProject s = None
            then Write_project h s user (GetProjectName h (entry\<lparr>Size := int (length origText)\<rparr>)) w
            else (None, s, w)) = (r, s1, w1)"
      by (metis prod_cases3)
    note E = Write_step_effect [OF U B R origText_def P W]
    show ?thesis
    proof (cases "getProject s = None")
      case False
      with P have "r = None" "s1 = s" "w1 = w" by simp_all
      with E False show ?thesis by auto
    next
      case True
      with P have WP: "Write_project h s user (GetProjectName h e') w = (r, s1, w1)"
        using E by simp
      from Write_project_cases [OF WP] show ?thesis
      proof
        assume "r \<noteq> None \<and> s1 = s"
        with E True show ?thesis by auto
      next
        assume A: "r = None \<and>
          (\<exists>project. s1 = s\<lparr>Context := (Context s)\<lparr>ctxProjectKey := Some (Some project)\<rparr>\<rparr>) \<and>
          (calls w1 = calls w @ [DB_FindProjectByName (user_ID user) (GetProjectName h e'),
                                 DB_UpdateProject (user_ID user) (GetProjectName h e')] \<or>
           calls w1 = calls w @ [DB_FindProjectByName (user_ID user) (GetProjectName h e'),
                                 DB_InsertProject (user_ID user) (GetProjectName h e') (GetProjectName h e'),
                                 DB_FindProjectByName (user_ID user) (GetProjectName h e')])"
        have F: "filter is_project_call (calls w') = filter is_project_call (calls w1)"
          using E by auto
        from A True U E F show ?thesis
          by (intro disjI2) auto
      qed
    qed
  qed
qed

lemma Write_cached:
  assumes "getProject s \<noteq> None" "Write h s entry w = (res, e', s', w')"
  shows "s' = s \<and> filter is_project_call (calls w') = filter is_project_call (calls w)"
  using Write_session_cases [OF assms(2)] assms(1) by auto

lemma Writes_cached:
  "getProject s \<noteq> None \<Longrightarrow> Writes h s es w = (rs, s', w') \<Longrightarrow>
     s' = s \<and> filter is_project_call (calls w') = filter is_project_call (calls w)"
proof (induction es arbitrary: w rs s' w')
  case Nil
  then show ?case by simp
next
  case (Cons entry es)
  obtain res e1 s1 w1 where W: "Write h s entry w = (res, e1, s1, w1)"
    by (metis prod_cases4)
  from Write_cached [OF Cons.prems(1) W] have S: "s1 = s"
    and F: "filter is_project_call (calls w1) = filter is_project_call (calls w)" by simp_all
  show ?case
  proof (cases "\<exists>p. res = Inl (Panic p)")
    case True
    then show ?thesis using Cons.prems(2) W S F by auto
  next
    case False
    obtain rs2 s2 w2 where WS: "Writes h s es w1 = (rs2, s2, w2)"
      by (metis prod_cases3)
    from False have "Writes h s (entry # es) w = (res # rs2, s2, w2)"
      using W S WS by (auto split: sum.splits fault.splits)
    with Cons.prems(2) have "s' = s2" "w' = w2" by simp_all
    with Cons.IH [OF Cons.prems(1) WS] F show ?thesis by simp
  qed
qed

lemma Write_project_update_ok:
  "FindProjectByName (DBPool h) (user_ID user) pn (backend w) = (Inr project, b1) \<Longrightarrow>
   UpdateProject (DBPool h) (user_ID user) pn b1 = (None, b2) \<Longrightarrow>
   Write_project h s user pn w =
     (None, s\<lparr>Context := (Context s)\<lparr>ctxProjectKey := Some (Some project)\<rparr>\<rparr>,
      \<lparr>backend = b2,
       calls = calls w @ [DB_FindProjectByName (user_ID user) pn, DB_UpdateProject (user_ID user) pn]\<rparr>)"
  by (simp add: Write_project_def invoke_def)

lemma Write_project_update_fails:
  "FindProjectByName (DBPool h) (user_ID user) pn (backend w) = (Inr project, b1) \<Longrightarrow>
   UpdateProject (DBPool h) (user_ID user) pn b1 = (Some err, b2) \<Longrightarrow>
   Write_project h s user pn w =
     (Some err, s,
      \<lparr>backend = b2,
       calls = calls w @ [DB_FindProjectByName (user_ID user) pn, DB_UpdateProject (user_ID user) pn]\<rparr>)"
  by (simp add: Write_project_def invoke_def)

lemma Write_project_insert_fails:
  "FindProjectByName (DBPool h) (user_ID user) pn (backend w) = (Inl e, b1) \<Longrightarrow>
   InsertProject (DBPool h) (user_ID user) pn pn b1 = (Inl err, b2) \<Longrightarrow>
   Write_project h s user pn w =
     (Some err, s,
      \<lparr>backend = b2,
       calls = calls w @ [DB_FindProjectByName (user_ID user) pn,
                          DB_InsertProject (user_ID user) pn pn]\<rparr>)"
  by (simp add: Write_project_def invoke_def)

lemma Write_project_refetch_fails:
  "FindProjectByName (DBPool h) (user_ID user) pn (backend w) = (Inl e, b1) \<Longrightarrow>
   InsertProject (DBPool h) (user_ID user) pn pn b1 = (Inr i, b2) \<Longrightarrow>
   FindProjectByName (DBPool h) (user_ID user) pn b2 = (Inl err, b3) \<Longrightarrow>
   Write_project h s user pn w =
     (Some err, s,
      \<lparr>backend = b3,
       calls = calls w @ [DB_FindProjectByName (user_ID user) pn,
                          DB_InsertProject (user_ID user) pn pn,
                          DB_FindProjectByName (user_ID user) pn]\<rparr>)"
  by (simp add: Write_project_def invoke_def)

lemma Write_project_insert_ok:
  "FindProjectByName (DBPool h) (user_ID user) pn (backend w) = (Inl e, b1) \<Longrightarrow>
   InsertProject (DBPool h) (user_ID user) pn pn b1 = (Inr i, b2) \<Longrightarrow>
   FindProjectByName (DBPool h) (user_ID user) pn b2 = (Inr project, b3) \<Longrightarrow>
   Write_project h s user pn w =
     (None, s\<lparr>Context := (Context s)\<lparr>ctxProjectKey := Some (Some project)\<rparr>\<rparr>,
      \<lparr>backend = b3,
       calls = calls w @ [DB_FindProjectByName (user_ID user) pn,
                          DB_InsertProject (user_ID user) pn pn,
                          DB_FindProjectByName (user_ID user) pn]\<rparr>)"
  by (simp add: Write_project_def invoke_def)

text \<open>What a Write that finds no cached project makes of the project block's result.\<close>

lemma Write_uncached:
  assumes U: "getUser s = Inr user" and B: "getBucket s = Inr bucket"
      and N: "getProject s = None"
      and W: "Write h s entry w = (res, entry', s1, w1)"
      and P: "Write_project h s user (GetProjectName h entry') w = (r, sA, wA)"
  shows "s1 = sA \<and>
         (\<forall>err. r = Some err \<longrightarrow> res = Inl (Error err) \<and> w1 = wA) \<and>
         (r = None \<longrightarrow> filter is_project_call (calls w1) = filter is_project_call (calls wA))"
proof -
  obtain b rerr where R: "ReadAll (Reader entry) = (b, rerr)"
    by (cases "ReadAll (Reader entry)")
  define origText where "origText = (case rerr of None \<Rightarrow> b | Some (e::string) \<Rightarrow> [])"
  obtain r' s' w' where P': "(if getProject s = None
          then Write_project h s user (GetProjectName h (entry\<lparr>Size := int (length origText)\<rparr>)) w
          else (None, s, w)) = (r', s', w')"
    by (metis prod_cases3)
  have E: "entry' = entry\<lparr>Size := int (length origText)\<rparr>"
    using Write_step_effect [OF U B R origText_def P' W] by simp
  have Q: "(if getProject s = None
          then Write_project h s user (GetProjectName h (entry\<lparr>Size := int (length origText)\<rparr>)) w
          else (None, s, w)) = (r, sA, wA)"
    using N P E by simp
  note S = Write_step_effect [OF U B R origText_def Q W]
  have X: "\<forall>err. r = Some err \<longrightarrow> res = Inl (Error err) \<and> w1 = wA"
    using W unfolding Write_step [OF U B R origText_def Q] by auto
  from S X show ?thesis by auto
qed


lemma Replace_leading:
  "Replace (CHR ''/'' # pn @ ''/'' @ rest) (CHR ''/'') (pn @ ''/'') [] 1 = rest"
proof -
  have "Replace rest (CHR ''/'') (pn @ ''/'') [] 0 = rest"
    by (subst Replace.simps) simp
  then show ?thesis
    by (subst Replace.simps) simp
qed

section \<open>The concrete deployment, evaluated\<close>

lemmas eval_defs =
  Write_def Write_project_def Validate_def invoke_def getUser_def getBucket_def
  getBucketQuota_def getProject_def Let_def binary_Size_def

lemma example_Replace1:
  "Replace ''/blog/post1.md'' (CHR ''/'') ''blog/'' [] 1 = ''post1.md''"
  using Replace_leading [of "''blog''" "''post1.md''"] by simp

lemma example_Replace2:
  "Replace ''/docs/readme.md'' (CHR ''/'') ''docs/'' [] 1 = ''readme.md''"
  using Replace_leading [of "''docs''" "''readme.md''"] by simp

lemma example_first_write:
  "Write example_handler example_validated example_entry1 example_world =
     (Inr ''alice-blog.example/post1.md'', example_entry1\<lparr>Size := 3\<rparr>, example_with_project,
      \<lparr>backend = [''blog''],
       calls = [DB_FindProjectByName ''1'' ''blog'', DB_InsertProject ''1'' ''blog'' ''blog'',
                DB_FindProjectByName ''1'' ''blog'',
                Handler_writeAsset
                  \<lparr>data_FileEntry = example_entry1\<lparr>Size := 3\<rparr>, Text = [1, 2, 3],
                   data_User = \<lparr>user_ID = ''1'', user_Name = ''alice''\<rparr>,
                   data_Bucket = \<lparr>bucket_Name = ''static-1''\<rparr>, BucketQuota = 0\<rparr>]\<rparr>)"
  by (simp add: example_defs eval_defs example_Replace1)

lemma example_second_write:
  "Write example_handler example_with_project example_entry2
     \<lparr>backend = [''blog''], calls = cs\<rparr> =
     (Inr ''alice-docs.example/readme.md'', example_entry2\<lparr>Size := 0\<rparr>, example_with_project,
      \<lparr>backend = [''blog''],
       calls = cs @
               [Handler_writeAsset
                  \<lparr>data_FileEntry = example_entry2\<lparr>Size := 0\<rparr>, Text = [],
                   data_User = \<lparr>user_ID = ''1'', user_Name = ''alice''\<rparr>,
                   data_Bucket = \<lparr>bucket_Name = ''static-1''\<rparr>, BucketQuota = 0\<rparr>]\<rparr>)"
  by (simp add: example_defs eval_defs example_Replace2)

lemma example_failed_write:
  "Write example_handler_write_fails example_validated example_entry1 example_world =
     (Inl (Error ''quota exceeded''), example_entry1\<lparr>Size := 3\<rparr>, example_with_project,
      \<lparr>backend = [''blog''],
       calls = [DB_FindProjectByName ''1'' ''blog'', DB_InsertProject ''1'' ''blog'' ''blog'',
                DB_FindProjectByName ''1'' ''blog'',
                Handler_writeAsset
                  \<lparr>data_FileEntry = example_entry1\<lparr>Size := 3\<rparr>, Text = [1, 2, 3],
                   data_User = \<lparr>user_ID = ''1'', user_Name = ''alice''\<rparr>,
                   data_Bucket = \<lparr>bucket_Name = ''static-1''\<rparr>, BucketQuota = 0\<rparr>]\<rparr>)"
  by (simp add: example_defs eval_defs)

lemma example_failed_validate:
  "Validate example_handler_no_quota example_session example_world =
     (Some ''quota unavailable'',
      example_session\<lparr>Context := (Context example_session)
         \<lparr>ctxBucketKey := Some \<lparr>bucket_Name = ''static-1''\<rparr>\<rparr>\<rparr>,
      \<lparr>backend = [],
       calls = [DB_FindUserForKey ''alice'' ''ssh-ed25519 AAAA'',
                DB_HasFeatureForUser ''1'' ''pgs'',
                Storage_UpsertBucket ''static-1'',
                Storage_GetBucketQuota \<lparr>bucket_Name = ''static-1''\<rparr>]\<rparr>)"
  by (simp add: example_defs eval_defs)

lemma example_update_write:
  "Write example_handler example_validated example_entry1 example_world_blog =
     (Inr ''alice-blog.example/post1.md'', example_entry1\<lparr>Size := 3\<rparr>, example_with_project,
      \<lparr>backend = [''blog''],
       calls = [DB_FindProjectByName ''1'' ''blog'', DB_UpdateProject ''1'' ''blog'',
                Handler_writeAsset
                  \<lparr>data_FileEntry = example_entry1\<lparr>Size := 3\<rparr>, Text = [1, 2, 3],
                   data_User = \<lparr>user_ID = ''1'', user_Name = ''alice''\<rparr>,
                   data_Bucket = \<lparr>bucket_Name = ''static-1''\<rparr>, BucketQuota = 0\<rparr>]\<rparr>)"
  by (simp add: example_defs eval_defs example_Replace1)

lemma example_update_fails_write:
  "Write example_handler_update_fails example_validated example_entry1
     \<lparr>backend = [''blog''], calls = cs\<rparr> =
     (Inl (Error ''update failed''), example_entry1\<lparr>Size := 3\<rparr>, example_validated,
      \<lparr>backend = [''blog''],
       calls = cs @ [DB_FindProjectByName ''1'' ''blog'', DB_UpdateProject ''1'' ''blog'']\<rparr>)"
  by (simp add: example_defs eval_defs)

lemma example_update_fails_write3:
  "Write example_handler_update_fails example_validated example_entry3
     \<lparr>backend = [''blog''], calls = cs\<rparr> =
     (Inl (Error ''update failed''), example_entry3\<lparr>Size := 2\<rparr>, example_validated,
      \<lparr>backend = [''blog''],
       calls = cs @ [DB_FindProjectByName ''1'' ''blog'', DB_UpdateProject ''1'' ''blog'']\<rparr>)"
  by (simp add: example_defs eval_defs)

lemma example_insert_fails_write:
  "Write example_handler_insert_fails example_validated example_entry1 example_world =
     (Inl (Error ''insert failed''), example_entry1\<lparr>Size := 3\<rparr>, example_validated,
      \<lparr>backend = [],
       calls = [DB_FindProjectByName ''1'' ''blog'', DB_InsertProject ''1'' ''blog'' ''blog'']\<rparr>)"
  by (simp add: example_defs eval_defs)

lemma example_refetch_fails_write:
  "Write example_handler_refetch_fails example_validated example_entry1 example_world =
     (Inl (Error ''project not found''), example_entry1\<lparr>Size := 3\<rparr>, example_validated,
      \<lparr>backend = [],
       calls = [DB_FindProjectByName ''1'' ''blog'', DB_InsertProject ''1'' ''blog'' ''blog'',
                DB_FindProjectByName ''1'' ''blog'']\<rparr>)"
  by (simp add: example_defs eval_defs)

lemma example_getters:
  "getUser example_validated = Inr \<lparr>user_ID = ''1'', user_Name = ''alice''\<rparr>"
  "getBucket example_validated = Inr \<lparr>bucket_Name = ''static-1''\<rparr>"
  "getBucketQuota example_validated = Inr 0"
  "getProject example_validated = None"
  "getUser example_with_project = Inr \<lparr>user_ID = ''1'', user_Name = ''alice''\<rparr>"
  "getBucket example_with_project = Inr \<lparr>bucket_Name = ''static-1''\<rparr>"
  "getBucketQuota example_with_project = Inr 0"
  by (simp_all add: example_defs getUser_def getBucket_def getBucketQuota_def getProject_def)

lemma example_names:
  "GetProjectName example_handler (example_entry1\<lparr>Size := 3\<rparr>) = ''blog''"
  "GetProjectName example_handler_update_fails (example_entry1\<lparr>Size := 3\<rparr>) = ''blog''"
  "GetProjectName example_handler_update_fails (example_entry3\<lparr>Size := 2\<rparr>) = ''blog''"
  "GetProjectName example_handler_insert_fails (example_entry1\<lparr>Size := 3\<rparr>) = ''blog''"
  "GetProjectName example_handler_refetch_fails (example_entry1\<lparr>Size := 3\<rparr>) = ''blog''"
  "GetProjectName example_handler (example_entry2\<lparr>Size := 0\<rparr>) = ''docs''"
  by (simp_all add: example_defs)





section \<open>The listing middleware\<close>



text \<open>
  Claim C9, as the code has it. The guard is \<open>len(cmd) > 1 && cmd[0] == "command" &&
  cmd[1] == "ls"\<close>: a command whose first two tokens are not \<open>command ls\<close> (also one
  with fewer than two tokens) is handed to the next handler, on the same session and
  world, and the result is the next handler's. Every command that starts with these
  two tokens, whatever follows them, runs the listing flow: the next handler is not
  consulted, and \<open>Validate\<close> runs first, followed by at least one further call.
\<close>

theorem Middleware_dispatch:
  "(take 2 (Command session) \<noteq> [''command'', ''ls''] \<longrightarrow>
      Middleware writeHandler t sshHandler session w = sshHandler session w) \<and>
   (take 2 (Command session) = [''command'', ''ls''] \<longrightarrow>
      Middleware writeHandler t sshHandler session w =
        Middleware writeHandler t sshHandler' session w \<and>
      (\<exists>rest. calls (snd (snd (Middleware writeHandler t sshHandler session w))) =
                calls (snd (snd (Validate writeHandler session w))) @ rest \<and> rest \<noteq> []))"
proof (intro conjI impI)
  assume "take 2 (Command session) \<noteq> [''command'', ''ls'']"
  then have "\<not> (1 < length (Command session) \<and> Command session ! 0 = ''command'' \<and>
                Command session ! 1 = ''ls'')"
    by (simp only: command_guard not_False_eq_True)
  then show "Middleware writeHandler t sshHandler session w = sshHandler session w"
    by (simp add: Middleware_def Let_def)
next
  assume "take 2 (Command session) = [''command'', ''ls'']"
  then have "1 < length (Command session) \<and> Command session ! 0 = ''command'' \<and>
             Command session ! 1 = ''ls''"
    by (simp only: command_guard)
  then show "Middleware writeHandler t sshHandler session w =
             Middleware writeHandler t sshHandler' session w"
    by (simp add: Middleware_def Let_def)
next
  assume "take 2 (Command session) = [''command'', ''ls'']"
  then show "\<exists>rest. calls (snd (snd (Middleware writeHandler t sshHandler session w))) =
                calls (snd (snd (Validate writeHandler session w))) @ rest \<and> rest \<noteq> []"
    by (rule Middleware_listing)
qed

theorem Middleware_dispatch_witness:
  "take 2 [''command'', ''scp''] \<noteq> [''command'', ''ls''] \<and>
   Middleware example_handler example_transport example_next
     (example_session\<lparr>Command := [''command'', ''scp'']\<rparr>) example_world =
   (None, example_session\<lparr>Command := [''command'', ''scp'']\<rparr>,
    \<lparr>backend = [], calls = [Session_Write ''next handler'']\<rparr>) \<and>
   take 2 [''command'', ''ls'', ''-la''] = [''command'', ''ls''] \<and>
   Middleware example_handler example_transport example_next
     (example_session\<lparr>Command := [''command'', ''ls'', ''-la'']\<rparr>) example_world =
   Middleware example_handler example_transport (\<lambda>s w. (None, s, w))
     (example_session\<lparr>Command := [''command'', ''ls'', ''-la'']\<rparr>) example_world"
  using Middleware_dispatch [of "example_session\<lparr>Command := [''command'', ''scp'']\<rparr>"
          example_handler example_transport example_next example_world]
        Middleware_dispatch [of "example_session\<lparr>Command := [''command'', ''ls'', ''-la'']\<rparr>"
          example_handler example_transport example_next example_world "\<lambda>s w. (None, s, w)"]
  by (simp add: example_defs example_next_def)

text \<open>
  The claim as stated asks for exactly two tokens. The command \<open>command ls -la\<close> has
  three, yet it is not passed on: the listing flow runs and the next handler leaves no
  mark.
\<close>

theorem Middleware_extra_token_counterexample:
  "[''command'', ''ls'', ''-la''] \<noteq> [''command'', ''ls''] \<and>
   Middleware example_handler example_transport example_next
     (example_session\<lparr>Command := [''command'', ''ls'', ''-la'']\<rparr>) example_world \<noteq>
   example_next (example_session\<lparr>Command := [''command'', ''ls'', ''-la'']\<rparr>) example_world \<and>
   calls (snd (snd (Middleware example_handler example_transport example_next
     (example_session\<lparr>Command := [''command'', ''ls'', ''-la'']\<rparr>) example_world))) =
     [DB_FindUserForKey ''alice'' ''ssh-ed25519 AAAA'',
      DB_HasFeatureForUser ''1'' ''pgs'',
      Storage_UpsertBucket ''static-1'',
      Storage_GetBucketQuota \<lparr>bucket_Name = ''static-1''\<rparr>,
      Logger_Infof ''(%s) bucket size is current (%d bytes)'' [ArgString ''alice'', ArgUint 0],
      Logger_Infof ''(%s) attempting to upload files to (%s)'' [ArgString ''alice'', ArgString ''pgs''],
      Storage_GetBucket ''static-1'',
      Storage_ListFiles \<lparr>bucket_Name = ''static-1''\<rparr> ''/'' False,
      Session_Write ''ab.txt\<newline>site/'']"
  by (simp add: example_defs example_next_def Middleware_def Validate_def List_def getUser_def
        invoke_def Base_def Let_def listing_output_def sort_Strings_def ReplaceAll_separator)

section \<open>List\<close>

text \<open>
  Claim C4, as the code has it. On a session with a cached user, and when \<open>GetBucket\<close>
  succeeds: a path whose \<open>filepath.Base\<close> is \<open>.\<close> (the empty path, \<open>.\<close>, \<open>./\<close>) gives
  exactly one synthetic directory entry, named \<open>.\<close>, and the storage's file listing is
  not called. Any other path, among them the root \<open>/\<close> that the listing middleware
  passes (its base name is \<open>/\<close>), is delegated to the storage's non-recursive
  \<open>ListFiles\<close>, whose result is returned as it is.
\<close>

theorem List_root:
  assumes "ctxUserKey (Context s) = Some (Some user)"
      and "GetBucket (Storage h) (GetAssetBucketName h (user_ID user)) (backend w) = (Inr bucket, b1)"
  shows "(Base fpath = ''.'' \<longrightarrow>
            List h s fpath w =
              (Inr [\<lparr>FName = ''.'', FIsDir = True, FSize = 0, FModTime = ZeroTime\<rparr>],
               \<lparr>backend = b1,
                calls = calls w @ [Storage_GetBucket (GetAssetBucketName h (user_ID user))]\<rparr>)) \<and>
         (Base fpath \<noteq> ''.'' \<longrightarrow>
            List h s fpath w =
              (case ListFiles (Storage h) bucket fpath False b1 of
                 (r, b2) \<Rightarrow>
                   (case r of Inl err \<Rightarrow> Inl (Error err) | Inr fileList \<Rightarrow> Inr fileList,
                    \<lparr>backend = b2,
                     calls = calls w @ [Storage_GetBucket (GetAssetBucketName h (user_ID user)),
                                        Storage_ListFiles bucket fpath False]\<rparr>))) \<and>
         Base [] = ''.'' \<and> Base ''.'' = ''.'' \<and> Base ''/'' = ''/''"
  using assms Base_nonempty [of fpath]
  by (auto simp: List_def getUser_def Let_def invoke_def Base_examples split: prod.splits sum.splits)

theorem List_root_witness:
  "ctxUserKey (Context example_validated) = Some (Some \<lparr>user_ID = ''1'', user_Name = ''alice''\<rparr>) \<and>
   GetBucket (Storage example_handler) (GetAssetBucketName example_handler ''1'')
     (backend example_world) = (Inr \<lparr>bucket_Name = ''static-1''\<rparr>, []) \<and>
   Base ''./'' = ''.'' \<and>
   List example_handler example_validated ''./'' example_world =
     (Inr [\<lparr>FName = ''.'', FIsDir = True, FSize = 0, FModTime = ZeroTime\<rparr>],
      \<lparr>backend = [], calls = [Storage_GetBucket ''static-1'']\<rparr>) \<and>
   Base ''/'' \<noteq> ''.'' \<and>
   List example_handler example_validated ''/'' example_world =
     (Inr [\<lparr>FName = ''site/'', FIsDir = True, FSize = 0, FModTime = ZeroTime\<rparr>,
           \<lparr>FName = ''a/b.txt'', FIsDir = False, FSize = 3, FModTime = Unix 7\<rparr>],
      \<lparr>backend = [],
       calls = [Storage_GetBucket ''static-1'',
                Storage_ListFiles \<lparr>bucket_Name = ''static-1''\<rparr> ''/'' False]\<rparr>)"
  using List_root [of example_validated "\<lparr>user_ID = ''1'', user_Name = ''alice''\<rparr>"
                     example_handler example_world "\<lparr>bucket_Name = ''static-1''\<rparr>" "[]" "''./''"]
        List_root [of example_validated "\<lparr>user_ID = ''1'', user_Name = ''alice''\<rparr>"
                     example_handler example_world "\<lparr>bucket_Name = ''static-1''\<rparr>" "[]" "''/''"]
  by (simp add: example_defs Base_def)

text \<open>
  The claim as stated fails on both paths it names: for \<open>/\<close> the storage listing is
  called and its entries are returned, and for the empty path the synthetic entry is
  named \<open>.\<close>, not \<open>/\<close>.
\<close>

theorem List_root_counterexample:
  "fst (List example_handler example_validated ''/'' example_world) \<noteq>
     Inr [\<lparr>FName = ''/'', FIsDir = True, FSize = 0, FModTime = ZeroTime\<rparr>] \<and>
   Storage_ListFiles \<lparr>bucket_Name = ''static-1''\<rparr> ''/'' False
     \<in> set (calls (snd (List example_handler example_validated ''/'' example_world))) \<and>
   fst (List example_handler example_validated [] example_world) =
     Inr [\<lparr>FName = ''.'', FIsDir = True, FSize = 0, FModTime = ZeroTime\<rparr>]"
  by (simp add: example_defs List_def getUser_def invoke_def Base_def Let_def)

section \<open>Validate\<close>

text \<open>
  Claim C5. Each of the validation failures returns before any call to the storage: a
  session without a key text, a key that resolves to no user, a user without a name, and
  a named user that lacks the feature \<open>pgs\<close>. The last fails with \<open>you do not have
  access to this service\<close>. In every case the session is returned unchanged and the
  only calls made are the database reads, so no bucket upsert has happened.
\<close>

theorem Validate_short_circuit:
  "(KeyText h s = Inl e \<longrightarrow> Validate h s w = (Some ''key not found'', s, w)) \<and>
   (KeyText h s = Inr key \<and>
    FindUserForKey (DBPool h) (sess_User s) key (backend w) = (Inl err, b1) \<longrightarrow>
      Validate h s w =
        (Some err, s, \<lparr>backend = b1, calls = calls w @ [DB_FindUserForKey (sess_User s) key]\<rparr>)) \<and>
   (KeyText h s = Inr key \<and>
    FindUserForKey (DBPool h) (sess_User s) key (backend w) = (Inr user, b1) \<and>
    user_Name user = [] \<longrightarrow>
      Validate h s w =
        (Some ''must have username set'', s,
         \<lparr>backend = b1, calls = calls w @ [DB_FindUserForKey (sess_User s) key]\<rparr>)) \<and>
   (KeyText h s = Inr key \<and>
    FindUserForKey (DBPool h) (sess_User s) key (backend w) = (Inr user, b1) \<and>
    user_Name user \<noteq> [] \<and>
    HasFeatureForUser (DBPool h) (user_ID user) ''pgs'' b1 = (False, b2) \<longrightarrow>
      Validate h s w =
        (Some ''you do not have access to this service'', s,
         \<lparr>backend = b2,
          calls = calls w @ [DB_FindUserForKey (sess_User s) key,
                             DB_HasFeatureForUser (user_ID user) ''pgs'']\<rparr>))"
  by (simp add: Validate_def invoke_def)

theorem Validate_short_circuit_witness:
  "Validate example_handler (example_session\<lparr>PublicKey := None\<rparr>) example_world =
     (Some ''key not found'', example_session\<lparr>PublicKey := None\<rparr>, example_world) \<and>
   Validate example_handler (example_session\<lparr>PublicKey := Some ''ssh-rsa BBBB''\<rparr>) example_world =
     (Some ''no user for key'', example_session\<lparr>PublicKey := Some ''ssh-rsa BBBB''\<rparr>,
      \<lparr>backend = [], calls = [DB_FindUserForKey ''alice'' ''ssh-rsa BBBB'']\<rparr>) \<and>
   Validate
     (example_handler\<lparr>DBPool := (DBPool example_handler)
        \<lparr>FindUserForKey := (\<lambda>name key b. (Inr \<lparr>user_ID = ''2'', user_Name = []\<rparr>, b))\<rparr>\<rparr>)
     example_session example_world =
     (Some ''must have username set'', example_session,
      \<lparr>backend = [], calls = [DB_FindUserForKey ''alice'' ''ssh-ed25519 AAAA'']\<rparr>) \<and>
   Validate
     (example_handler\<lparr>DBPool := (DBPool example_handler)
        \<lparr>HasFeatureForUser := (\<lambda>uid feature b. (False, b))\<rparr>\<rparr>)
     example_session example_world =
     (Some ''you do not have access to this service'', example_session,
      \<lparr>backend = [],
       calls = [DB_FindUserForKey ''alice'' ''ssh-ed25519 AAAA'',
                DB_HasFeatureForUser ''1'' ''pgs'']\<rparr>)"
  using Validate_short_circuit [of example_handler "example_session\<lparr>PublicKey := None\<rparr>"
          "''no public key''" example_world]
        Validate_short_circuit [of example_handler
          "example_session\<lparr>PublicKey := Some ''ssh-rsa BBBB''\<rparr>" _ example_world
          "''ssh-rsa BBBB''" "''no user for key''" "[]"]
        Validate_short_circuit [of
          "example_handler\<lparr>DBPool := (DBPool example_handler)
             \<lparr>FindUserForKey := (\<lambda>name key b. (Inr \<lparr>user_ID = ''2'', user_Name = []\<rparr>, b))\<rparr>\<rparr>"
          example_session _ example_world "''ssh-ed25519 AAAA''" _ "[]"
          "\<lparr>user_ID = ''2'', user_Name = []\<rparr>"]
        Validate_short_circuit [of
          "example_handler\<lparr>DBPool := (DBPool example_handler)
             \<lparr>HasFeatureForUser := (\<lambda>uid feature b. (False, b))\<rparr>\<rparr>"
          example_session _ example_world "''ssh-ed25519 AAAA''" _ "[]"
          "\<lparr>user_ID = ''1'', user_Name = ''alice''\<rparr>" "[]"]
  by (simp add: example_defs)

section \<open>Write\<close>

text \<open>
  Claim C2 says that \<open>Write\<close> on a session that was never validated returns an error
  and reaches neither the storage nor the project store. On a session whose user key
  is unset the code makes no call indeed, but it does not return: the type assertion in
  \<open>getUser\<close> panics before the nil test that would produce the error.
\<close>

theorem Write_unvalidated_panics:
  "Write h (s\<lparr>Context := (Context s)\<lparr>ctxUserKey := None\<rparr>\<rparr>) entry w =
     (Inl (Panic ''interface conversion: interface {} is nil, not *db.User''), entry,
      s\<lparr>Context := (Context s)\<lparr>ctxUserKey := None\<rparr>\<rparr>, w)"
  by (simp add: Write_def getUser_def)

text \<open>
  Claim C1, as the code has it. Take a session with a cached user and bucket and no
  cached project. The \<open>Write\<close> on it runs the project sequence for the project name
  of its entry. If the sequence completes, \<open>FindProjectByName\<close> and \<open>UpdateProject\<close>
  succeeding, or \<open>FindProjectByName\<close> failing and \<open>InsertProject\<close> and the second
  \<open>FindProjectByName\<close> succeeding, the record found is cached, these are the only calls
  to the project store, and whatever files are written afterwards in the session, with
  whatever project names, the cached project stays and no further call reaches the
  project store. If the update, the insert or the second lookup fails, \<open>Write\<close> returns
  that error after exactly the calls made so far and the session is unchanged, so that
  the next \<open>Write\<close> finds no cached project and runs the sequence again.
\<close>

theorem Write_project_sequence:
  assumes U: "getUser s = Inr user" and B: "getBucket s = Inr bucket"
      and N: "getProject s = None"
      and W: "Write h s entry w = (res, entry', s1, w1)"
      and R: "Writes h s1 rest w1 = (rs, s2, w2)"
  shows
   "(FindProjectByName (DBPool h) (user_ID user) (GetProjectName h entry') (backend w) =
       (Inr project, b1) \<and>
     UpdateProject (DBPool h) (user_ID user) (GetProjectName h entry') b1 = (None, b2) \<longrightarrow>
       s1 = s\<lparr>Context := (Context s)\<lparr>ctxProjectKey := Some (Some project)\<rparr>\<rparr> \<and>
       filter is_project_call (calls w1) =
         filter is_project_call (calls w) @
           [DB_FindProjectByName (user_ID user) (GetProjectName h entry'),
            DB_UpdateProject (user_ID user) (GetProjectName h entry')] \<and>
       s2 = s1 \<and> filter is_project_call (calls w2) = filter is_project_call (calls w1)) \<and>
    (FindProjectByName (DBPool h) (user_ID user) (GetProjectName h entry') (backend w) =
       (Inl e, b1) \<and>
     InsertProject (DBPool h) (user_ID user) (GetProjectName h entry') (GetProjectName h entry') b1 =
       (Inr i, b2) \<and>
     FindProjectByName (DBPool h) (user_ID user) (GetProjectName h entry') b2 = (Inr project, b3) \<longrightarrow>
       s1 = s\<lparr>Context := (Context s)\<lparr>ctxProjectKey := Some (Some project)\<rparr>\<rparr> \<and>
       filter is_project_call (calls w1) =
         filter is_project_call (calls w) @
           [DB_FindProjectByName (user_ID user) (GetProjectName h entry'),
            DB_InsertProject (user_ID user) (GetProjectName h entry') (GetProjectName h entry'),
            DB_FindProjectByName (user_ID user) (GetProjectName h entry')] \<and>
       s2 = s1 \<and> filter is_project_call (calls w2) = filter is_project_call (calls w1)) \<and>
    (FindProjectByName (DBPool h) (user_ID user) (GetProjectName h entry') (backend w) =
       (Inr project, b1) \<and>
     UpdateProject (DBPool h) (user_ID user) (GetProjectName h entry') b1 = (Some err, b2) \<longrightarrow>
       res = Inl (Error err) \<and> s1 = s \<and>
       w1 = \<lparr>backend = b2,
             calls = calls w @ [DB_FindProjectByName (user_ID user) (GetProjectName h entry'),
                                DB_UpdateProject (user_ID user) (GetProjectName h entry')]\<rparr>) \<and>
    (FindProjectByName (DBPool h) (user_ID user) (GetProjectName h entry') (backend w) =
       (Inl e, b1) \<and>
     InsertProject (DBPool h) (user_ID user) (GetProjectName h entry') (GetProjectName h entry') b1 =
       (Inl err, b2) \<longrightarrow>
       res = Inl (Error err) \<and> s1 = s \<and>
       w1 = \<lparr>backend = b2,
             calls = calls w @ [DB_FindProjectByName (user_ID user) (GetProjectName h entry'),
                                DB_InsertProject (user_ID user) (GetProjectName h entry')
                                  (GetProjectName h entry')]\<rparr>) \<and>
    (FindProjectByName (DBPool h) (user_ID user) (GetProjectName h entry') (backend w) =
       (Inl e, b1) \<and>
     InsertProject (DBPool h) (user_ID user) (GetProjectName h entry') (GetProjectName h entry') b1 =
       (Inr i, b2) \<and>
     FindProjectByName (DBPool h) (user_ID user) (GetProjectName h entry') b2 = (Inl err, b3) \<longrightarrow>
       res = Inl (Error err) \<and> s1 = s \<and>
       w1 = \<lparr>backend = b3,
             calls = calls w @ [DB_FindProjectByName (user_ID user) (GetProjectName h entry'),
                                DB_InsertProject (user_ID user) (GetProjectName h entry')
                                  (GetProjectName h entry'),
                                DB_FindProjectByName (user_ID user) (GetProjectName h entry')]\<rparr>)"
proof (intro conjI impI)
  assume A: "FindProjectByName (DBPool h) (user_ID user) (GetProjectName h entry') (backend w) =
       (Inr project, b1) \<and>
     UpdateProject (DBPool h) (user_ID user) (GetProjectName h entry') b1 = (None, b2)"
  note P = Write_project_update_ok [OF conjunct1 [OF A] conjunct2 [OF A], of s]
  note X = Write_uncached [OF U B N W P]
  from X show S1: "s1 = s\<lparr>Context := (Context s)\<lparr>ctxProjectKey := Some (Some project)\<rparr>\<rparr>"
    by simp
  from X show "filter is_project_call (calls w1) =
         filter is_project_call (calls w) @
           [DB_FindProjectByName (user_ID user) (GetProjectName h entry'),
            DB_UpdateProject (user_ID user) (GetProjectName h entry')]"
    by simp
  have C: "getProject s1 \<noteq> None" using S1 by (simp add: getProject_def)
  from Writes_cached [OF C R] show "s2 = s1"
    and "filter is_project_call (calls w2) = filter is_project_call (calls w1)" by simp_all
next
  assume A: "FindProjectByName (DBPool h) (user_ID user) (GetProjectName h entry') (backend w) =
       (Inl e, b1) \<and>
     InsertProject (DBPool h) (user_ID user) (GetProjectName h entry') (GetProjectName h entry') b1 =
       (Inr i, b2) \<and>
     FindProjectByName (DBPool h) (user_ID user) (GetProjectName h entry') b2 = (Inr project, b3)"
  then have A1: "FindProjectByName (DBPool h) (user_ID user) (GetProjectName h entry') (backend w) =
       (Inl e, b1)"
    and A2: "InsertProject (DBPool h) (user_ID user) (GetProjectName h entry') (GetProjectName h entry') b1 =
       (Inr i, b2)"
    and A3: "FindProjectByName (DBPool h) (user_ID user) (GetProjectName h entry') b2 = (Inr project, b3)"
    by simp_all
  note X = Write_uncached [OF U B N W Write_project_insert_ok [OF A1 A2 A3, of s]]
  from X show S1: "s1 = s\<lparr>Context := (Context s)\<lparr>ctxProjectKey := Some (Some project)\<rparr>\<rparr>"
    by simp
  from X show "filter is_project_call (calls w1) =
         filter is_project_call (calls w) @
           [DB_FindProjectByName (user_ID user) (GetProjectName h entry'),
            DB_InsertProject (user_ID user) (GetProjectName h entry') (GetProjectName h entry'),
            DB_FindProjectByName (user_ID user) (GetProjectName h entry')]"
    by simp
  have C: "getProject s1 \<noteq> None" using S1 by (simp add: getProject_def)
  from Writes_cached [OF C R] show "s2 = s1"
    and "filter is_project_call (calls w2) = filter is_project_call (calls w1)" by simp_all
next
  assume A: "FindProjectByName (DBPool h) (user_ID user) (GetProjectName h entry') (backend w) =
       (Inr project, b1) \<and>
     UpdateProject (DBPool h) (user_ID user) (GetProjectName h entry') b1 = (Some err, b2)"
  note X = Write_uncached [OF U B N W
             Write_project_update_fails [OF conjunct1 [OF A] conjunct2 [OF A], of s]]
  from X show "res = Inl (Error err)" and "s1 = s"
    and "w1 = \<lparr>backend = b2,
             calls = calls w @ [DB_FindProjectByName (user_ID user) (GetProjectName h entry'),
                                DB_UpdateProject (user_ID user) (GetProjectName h entry')]\<rparr>"
    by simp_all
next
  assume A: "FindProjectByName (DBPool h) (user_ID user) (GetProjectName h entry') (backend w) =
       (Inl e, b1) \<and>
     InsertProject (DBPool h) (user_ID user) (GetProjectName h entry') (GetProjectName h entry') b1 =
       (Inl err, b2)"
  note X = Write_uncached [OF U B N W
             Write_project_insert_fails [OF conjunct1 [OF A] conjunct2 [OF A], of s]]
  from X show "res = Inl (Error err)" and "s1 = s"
    and "w1 = \<lparr>backend = b2,
             calls = calls w @ [DB_FindProjectByName (user_ID user) (GetProjectName h entry'),
                                DB_InsertProject (user_ID user) (GetProjectName h entry')
                                  (GetProjectName h entry')]\<rparr>"
    by simp_all
next
  assume A: "FindProjectByName (DBPool h) (user_ID user) (GetProjectName h entry') (backend w) =
       (Inl e, b1) \<and>
     InsertProject (DBPool h) (user_ID user) (GetProjectName h entry') (GetProjectName h entry') b1 =
       (Inr i, b2) \<and>
     FindProjectByName (DBPool h) (user_ID user) (GetProjectName h entry') b2 = (Inl err, b3)"
  then have A1: "FindProjectByName (DBPool h) (user_ID user) (GetProjectName h entry') (backend w) =
       (Inl e, b1)"
    and A2: "InsertProject (DBPool h) (user_ID user) (GetProjectName h entry') (GetProjectName h entry') b1 =
       (Inr i, b2)"
    and A3: "FindProjectByName (DBPool h) (user_ID user) (GetProjectName h entry') b2 = (Inl err, b3)"
    by simp_all
  note X = Write_uncached [OF U B N W Write_project_refetch_fails [OF A1 A2 A3, of s]]
  from X show "res = Inl (Error err)" and "s1 = s"
    and "w1 = \<lparr>backend = b3,
             calls = calls w @ [DB_FindProjectByName (user_ID user) (GetProjectName h entry'),
                                DB_InsertProject (user_ID user) (GetProjectName h entry')
                                  (GetProjectName h entry'),
                                DB_FindProjectByName (user_ID user) (GetProjectName h entry')]\<rparr>"
    by simp_all
qed

theorem Write_project_sequence_witness:
  "Writes example_handler example_validated [example_entry1, example_entry2] example_world =
     ([Inr ''alice-blog.example/post1.md'', Inr ''alice-docs.example/readme.md''],
      example_with_project,
      \<lparr>backend = [''blog''],
       calls = [DB_FindProjectByName ''1'' ''blog'', DB_InsertProject ''1'' ''blog'' ''blog'',
                DB_FindProjectByName ''1'' ''blog'',
                Handler_writeAsset
                  \<lparr>data_FileEntry = example_entry1\<lparr>Size := 3\<rparr>, Text = [1, 2, 3],
                   data_User = \<lparr>user_ID = ''1'', user_Name = ''alice''\<rparr>,
                   data_Bucket = \<lparr>bucket_Name = ''static-1''\<rparr>, BucketQuota = 0\<rparr>,
                Handler_writeAsset
                  \<lparr>data_FileEntry = example_entry2\<lparr>Size := 0\<rparr>, Text = [],
                   data_User = \<lparr>user_ID = ''1'', user_Name = ''alice''\<rparr>,
                   data_Bucket = \<lparr>bucket_Name = ''static-1''\<rparr>, BucketQuota = 0\<rparr>]\<rparr>) \<and>
   example_with_project =
     example_validated\<lparr>Context := (Context example_validated)
       \<lparr>ctxProjectKey := Some (Some \<lparr>project_UserID = ''1'', project_Name = ''blog'',
                                      project_ProjectDir = ''blog''\<rparr>)\<rparr>\<rparr> \<and>
   filter is_project_call
     (calls (snd (snd (Writes example_handler example_validated [example_entry1, example_entry2]
                         example_world)))) =
     [DB_FindProjectByName ''1'' ''blog'', DB_InsertProject ''1'' ''blog'' ''blog'',
      DB_FindProjectByName ''1'' ''blog''] \<and>
   filter is_project_call
     (calls (snd (snd (Writes example_handler example_validated [example_entry1, example_entry2]
                         example_world_blog)))) =
     [DB_FindProjectByName ''1'' ''blog'', DB_UpdateProject ''1'' ''blog''] \<and>
   snd (Writes example_handler_update_fails example_validated [example_entry1] example_world_blog) =
     (example_validated,
      \<lparr>backend = [''blog''],
       calls = [DB_FindProjectByName ''1'' ''blog'', DB_UpdateProject ''1'' ''blog'']\<rparr>) \<and>
   snd (Writes example_handler_insert_fails example_validated [example_entry1] example_world) =
     (example_validated,
      \<lparr>backend = [],
       calls = [DB_FindProjectByName ''1'' ''blog'', DB_InsertProject ''1'' ''blog'' ''blog'']\<rparr>) \<and>
   snd (Writes example_handler_refetch_fails example_validated [example_entry1] example_world) =
     (example_validated,
      \<lparr>backend = [],
       calls = [DB_FindProjectByName ''1'' ''blog'', DB_InsertProject ''1'' ''blog'' ''blog'',
                DB_FindProjectByName ''1'' ''blog'']\<rparr>)"
proof -
  note G = example_getters(1,2,4)
  have R1: "Writes example_handler example_with_project [example_entry2]
              \<lparr>backend = [''blog''], calls = cs\<rparr> =
            ([Inr ''alice-docs.example/readme.md''], example_with_project,
             \<lparr>backend = [''blog''],
              calls = cs @ [Handler_writeAsset
                  \<lparr>data_FileEntry = example_entry2\<lparr>Size := 0\<rparr>, Text = [],
                   data_User = \<lparr>user_ID = ''1'', user_Name = ''alice''\<rparr>,
                   data_Bucket = \<lparr>bucket_Name = ''static-1''\<rparr>, BucketQuota = 0\<rparr>]\<rparr>)" for cs
    by (simp add: example_second_write)
  have R0: "Writes h s [] w = ([], s, w)" for h :: "string list UploadAssetHandler" and s w
    by simp
  note I1 = Write_project_sequence [OF G example_first_write R1,
              where e = "''project not found''" and ?b1.0 = "[]" and i = "''id''"
                and ?b2.0 = "[''blog'']" and project = "\<lparr>project_UserID = ''1'', project_Name = ''blog'', project_ProjectDir = ''blog''\<rparr>" and ?b3.0 = "[''blog'']"]
  note I2 = Write_project_sequence [OF G example_update_write R1,
              where project = "\<lparr>project_UserID = ''1'', project_Name = ''blog'', project_ProjectDir = ''blog''\<rparr>" and ?b1.0 = "[''blog'']" and ?b2.0 = "[''blog'']"]
  note I3 = Write_project_sequence [OF G example_update_fails_write [of "[]"] R0,
              where project = "\<lparr>project_UserID = ''1'', project_Name = ''blog'', project_ProjectDir = ''blog''\<rparr>" and ?b1.0 = "[''blog'']" and ?b2.0 = "[''blog'']"
                and err = "''update failed''"]
  note I4 = Write_project_sequence [OF G example_insert_fails_write R0,
              where e = "''project not found''" and ?b1.0 = "[]" and ?b2.0 = "[]"
                and err = "''insert failed''"]
  note I5 = Write_project_sequence [OF G example_refetch_fails_write R0,
              where e = "''project not found''" and ?b1.0 = "[]" and i = "''id''"
                and ?b2.0 = "[]" and ?b3.0 = "[]" and err = "''project not found''"]
  have W1: "Writes example_handler example_validated [example_entry1, example_entry2] example_world =
     ([Inr ''alice-blog.example/post1.md'', Inr ''alice-docs.example/readme.md''],
      example_with_project,
      \<lparr>backend = [''blog''],
       calls = [DB_FindProjectByName ''1'' ''blog'', DB_InsertProject ''1'' ''blog'' ''blog'',
                DB_FindProjectByName ''1'' ''blog'',
                Handler_writeAsset
                  \<lparr>data_FileEntry = example_entry1\<lparr>Size := 3\<rparr>, Text = [1, 2, 3],
                   data_User = \<lparr>user_ID = ''1'', user_Name = ''alice''\<rparr>,
                   data_Bucket = \<lparr>bucket_Name = ''static-1''\<rparr>, BucketQuota = 0\<rparr>,
                Handler_writeAsset
                  \<lparr>data_FileEntry = example_entry2\<lparr>Size := 0\<rparr>, Text = [],
                   data_User = \<lparr>user_ID = ''1'', user_Name = ''alice''\<rparr>,
                   data_Bucket = \<lparr>bucket_Name = ''static-1''\<rparr>, BucketQuota = 0\<rparr>]\<rparr>)"
    by (simp add: example_first_write example_second_write)
  have W2: "Writes example_handler example_validated [example_entry1, example_entry2]
              example_world_blog =
     ([Inr ''alice-blog.example/post1.md'', Inr ''alice-docs.example/readme.md''],
      example_with_project,
      \<lparr>backend = [''blog''],
       calls = [DB_FindProjectByName ''1'' ''blog'', DB_UpdateProject ''1'' ''blog'',
                Handler_writeAsset
                  \<lparr>data_FileEntry = example_entry1\<lparr>Size := 3\<rparr>, Text = [1, 2, 3],
                   data_User = \<lparr>user_ID = ''1'', user_Name = ''alice''\<rparr>,
                   data_Bucket = \<lparr>bucket_Name = ''static-1''\<rparr>, BucketQuota = 0\<rparr>,
                Handler_writeAsset
                  \<lparr>data_FileEntry = example_entry2\<lparr>Size := 0\<rparr>, Text = [],
                   data_User = \<lparr>user_ID = ''1'', user_Name = ''alice''\<rparr>,
                   data_Bucket = \<lparr>bucket_Name = ''static-1''\<rparr>, BucketQuota = 0\<rparr>]\<rparr>)"
    by (simp add: example_update_write example_second_write)
  have W3: "Writes example_handler_update_fails example_validated [example_entry1]
              example_world_blog =
            ([Inl (Error ''update failed'')], example_validated,
             \<lparr>backend = [''blog''],
              calls = [DB_FindProjectByName ''1'' ''blog'', DB_UpdateProject ''1'' ''blog'']\<rparr>)"
    using example_update_fails_write [of "[]"] by (simp add: example_world_blog_def)
  have W4: "Writes example_handler_insert_fails example_validated [example_entry1] example_world =
            ([Inl (Error ''insert failed'')], example_validated,
             \<lparr>backend = [],
              calls = [DB_FindProjectByName ''1'' ''blog'',
                       DB_InsertProject ''1'' ''blog'' ''blog'']\<rparr>)"
    by (simp add: example_insert_fails_write)
  have W5: "Writes example_handler_refetch_fails example_validated [example_entry1] example_world =
            ([Inl (Error ''project not found'')], example_validated,
             \<lparr>backend = [],
              calls = [DB_FindProjectByName ''1'' ''blog'', DB_InsertProject ''1'' ''blog'' ''blog'',
                       DB_FindProjectByName ''1'' ''blog'']\<rparr>)"
    by (simp add: example_refetch_fails_write)
  from I1 I2 I3 I4 I5 show ?thesis
    unfolding W1 W2 W3 W4 W5
    by (simp add: example_defs example_names [unfolded example_defs])
qed

text \<open>
  The claim as stated has the sequence run exactly once, on the first write. When the
  update fails on the first write nothing is cached, and the second write to the same
  project runs the sequence again.
\<close>

theorem Writes_project_repeat_counterexample:
  "GetProjectName example_handler_update_fails (example_entry1\<lparr>Size := 3\<rparr>) = ''blog'' \<and>
   GetProjectName example_handler_update_fails (example_entry3\<lparr>Size := 2\<rparr>) = ''blog'' \<and>
   Writes example_handler_update_fails example_validated [example_entry1, example_entry3]
     example_world_blog =
     ([Inl (Error ''update failed''), Inl (Error ''update failed'')], example_validated,
      \<lparr>backend = [''blog''],
       calls = [DB_FindProjectByName ''1'' ''blog'', DB_UpdateProject ''1'' ''blog'',
                DB_FindProjectByName ''1'' ''blog'', DB_UpdateProject ''1'' ''blog'']\<rparr>)"
  using example_update_fails_write [of "[]"]
  by (simp add: example_names example_world_blog_def example_update_fails_write3)




text \<open>
  Claim C8. When \<open>Write\<close> returns a URL for an entry whose path starts with
  \<open>/<project>/\<close>, the URL is \<open>AssetURL\<close> of the cached user's name, the project name
  and the rest of the path: only the leading \<open>/<project>/\<close> is removed.
\<close>

theorem Write_url:
  assumes "getUser s = Inr user"
      and "Write h s entry w = (Inr url, entry', s', w')"
      and "Filepath entry = ''/'' @ GetProjectName h entry' @ ''/'' @ rest"
  shows "url = AssetURL (Cfg h) (user_Name user) (GetProjectName h entry') rest"
proof -
  obtain bucket where B: "getBucket s = Inr bucket"
    using assms(1,2) Write_no_bucket [OF assms(1), of _ h entry w] by (cases "getBucket s") auto
  obtain b rerr where R: "ReadAll (Reader entry) = (b, rerr)"
    by (cases "ReadAll (Reader entry)")
  define origText where "origText = (case rerr of None \<Rightarrow> b | Some (e::string) \<Rightarrow> [])"
  obtain r s1 w1 where P: "(if getProject s = None
          then Write_project h s user (GetProjectName h (entry\<lparr>Size := int (length origText)\<rparr>)) w
          else (None, s, w)) = (r, s1, w1)"
    by (metis prod_cases3)
  have E: "entry' = entry\<lparr>Size := int (length origText)\<rparr>"
    using Write_step_effect [OF assms(1) B R origText_def P assms(2)] by simp
  have "url = AssetURL (Cfg h) (user_Name user) (GetProjectName h entry')
                (Replace (Filepath entry) (CHR ''/'') (GetProjectName h entry' @ ''/'') [] 1)"
    using assms(2) unfolding Write_step [OF assms(1) B R origText_def P] E
    by (auto split: option.splits sum.splits prod.splits)
  then show ?thesis
    using assms(3) Replace_leading [of "GetProjectName h entry'" rest] by simp
qed

theorem Write_url_witness:
  "getUser example_validated = Inr \<lparr>user_ID = ''1'', user_Name = ''alice''\<rparr> \<and>
   GetProjectName example_handler (example_entry1\<lparr>Size := 3\<rparr>) = ''blog'' \<and>
   Filepath example_entry1 = ''/'' @ ''blog'' @ ''/'' @ ''post1.md'' \<and>
   fst (Write example_handler example_validated example_entry1 example_world) =
     Inr (AssetURL (Cfg example_handler) ''alice'' ''blog'' ''post1.md'')"
proof -
  have U: "getUser example_validated = Inr \<lparr>user_ID = ''1'', user_Name = ''alice''\<rparr>"
    and N: "GetProjectName example_handler (example_entry1\<lparr>Size := 3\<rparr>) = ''blog''"
    and F: "Filepath example_entry1 =
              ''/'' @ GetProjectName example_handler (example_entry1\<lparr>Size := 3\<rparr>) @ ''/'' @ ''post1.md''"
    by (simp_all add: example_defs getUser_def)
  from Write_url [OF U example_first_write F] U N F
  show ?thesis by (simp add: example_first_write)
qed

text \<open>
  Claim C10. When reading the entry's stream fails, \<open>Write\<close> goes on with empty
  content: on a validated session whose project is cached or resolves, and whose storage
  write accepts the payload, it returns the URL, the entry's size is 0 and the payload
  written is empty.
\<close>

theorem Write_read_failure:
  assumes "getUser s = Inr user" and "getBucket s = Inr bucket"
      and "getBucketQuota s = Inr bucketQuota"
      and "ReadAll (Reader entry) = (b, Some rerr)"
      and "(if getProject s = None
            then Write_project h s user (GetProjectName h (entry\<lparr>Size := 0\<rparr>)) w
            else (None, s, w)) = (None, s1, w1)"
      and "writeAsset h \<lparr>data_FileEntry = entry\<lparr>Size := 0\<rparr>, Text = [], data_User = user,
                         data_Bucket = bucket, BucketQuota = bucketQuota\<rparr> (backend w1) = (None, b2)"
  shows "Write h s entry w =
           (Inr (AssetURL (Cfg h) (user_Name user) (GetProjectName h (entry\<lparr>Size := 0\<rparr>))
                   (Replace (Filepath entry) (CHR ''/'')
                      (GetProjectName h (entry\<lparr>Size := 0\<rparr>) @ ''/'') [] 1)),
            entry\<lparr>Size := 0\<rparr>, s1,
            \<lparr>backend = b2,
             calls = calls w1 @
               [Handler_writeAsset \<lparr>data_FileEntry = entry\<lparr>Size := 0\<rparr>, Text = [],
                  data_User = user, data_Bucket = bucket, BucketQuota = bucketQuota\<rparr>]\<rparr>)"
proof -
  have O: "[] = (case Some rerr of None \<Rightarrow> b | Some (e::string) \<Rightarrow> [])" by simp
  have P: "(if getProject s = None
            then Write_project h s user
                   (GetProjectName h (entry\<lparr>Size := int (length ([]::bytes))\<rparr>)) w
            else (None, s, w)) = (None, s1, w1)"
    using assms(5) by (auto split: if_splits)
  show ?thesis
    unfolding Write_step [OF assms(1,2) assms(4) O P]
    using assms(3) assms(6) by simp
qed

theorem Write_read_failure_witness:
  "getUser example_with_project = Inr \<lparr>user_ID = ''1'', user_Name = ''alice''\<rparr> \<and>
   getBucket example_with_project = Inr \<lparr>bucket_Name = ''static-1''\<rparr> \<and>
   getBucketQuota example_with_project = Inr 0 \<and>
   ReadAll (Reader example_entry2) = ([1, 2], Some ''connection reset'') \<and>
   Write example_handler example_with_project example_entry2 \<lparr>backend = [''blog''], calls = []\<rparr> =
     (Inr ''alice-docs.example/readme.md'', example_entry2\<lparr>Size := 0\<rparr>, example_with_project,
      \<lparr>backend = [''blog''],
       calls = [Handler_writeAsset
                  \<lparr>data_FileEntry = example_entry2\<lparr>Size := 0\<rparr>, Text = [],
                   data_User = \<lparr>user_ID = ''1'', user_Name = ''alice''\<rparr>,
                   data_Bucket = \<lparr>bucket_Name = ''static-1''\<rparr>, BucketQuota = 0\<rparr>]\<rparr>)"
proof -
  have U: "getUser example_with_project = Inr \<lparr>user_ID = ''1'', user_Name = ''alice''\<rparr>"
    and B: "getBucket example_with_project = Inr \<lparr>bucket_Name = ''static-1''\<rparr>"
    and Q: "getBucketQuota example_with_project = Inr 0"
    and R: "ReadAll (Reader example_entry2) = ([1, 2], Some ''connection reset'')"
    by (simp_all add: example_defs getUser_def getBucket_def getBucketQuota_def)
  have P: "(if getProject example_with_project = None
            then Write_project example_handler example_with_project
                   \<lparr>user_ID = ''1'', user_Name = ''alice''\<rparr>
                   (GetProjectName example_handler (example_entry2\<lparr>Size := 0\<rparr>))
                   \<lparr>backend = [''blog''], calls = []\<rparr>
            else (None, example_with_project, \<lparr>backend = [''blog''], calls = []\<rparr>)) =
           (None, example_with_project, \<lparr>backend = [''blog''], calls = []\<rparr>)"
    by (simp add: example_defs getProject_def)
  have A: "writeAsset example_handler
             \<lparr>data_FileEntry = example_entry2\<lparr>Size := 0\<rparr>, Text = [],
              data_User = \<lparr>user_ID = ''1'', user_Name = ''alice''\<rparr>,
              data_Bucket = \<lparr>bucket_Name = ''static-1''\<rparr>, BucketQuota = 0\<rparr>
             (backend \<lparr>backend = [''blog''], calls = []\<rparr>) = (None, [''blog''])"
    by (simp add: example_defs)
  from Write_read_failure [OF U B Q R P A] U B Q R
  show ?thesis by (simp add: example_handler_def example_entry2_def example_Replace2)
qed

section \<open>Error paths\<close>

text \<open>
  Claim C6, as the code has it. On a session with a cached user and bucket and no
  cached project, when \<open>UpdateProject\<close>, \<open>InsertProject\<close> or the lookup after the insert
  fails, \<open>Write\<close> returns that error and the session is unchanged: no project is
  cached. Whenever \<open>Write\<close> returns an error or panics, the session is as it was, or it
  differs only by a cached project after a complete project sequence. When \<open>Validate\<close>
  returns an error, the session is as it was, except when the quota read fails after the
  bucket upsert: then the bucket, and only the bucket, has been stored in the context.
\<close>

theorem error_paths_session:
  "(getUser s = Inr user \<and> getBucket s = Inr bucket \<and> getProject s = None \<and>
    Write h s entry w = (res, entry', s', w') \<longrightarrow>
      (FindProjectByName (DBPool h) (user_ID user) (GetProjectName h entry') (backend w) =
         (Inr project, b1) \<and>
       UpdateProject (DBPool h) (user_ID user) (GetProjectName h entry') b1 = (Some err, b2) \<longrightarrow>
         res = Inl (Error err) \<and> s' = s \<and> getProject s' = None) \<and>
      (FindProjectByName (DBPool h) (user_ID user) (GetProjectName h entry') (backend w) =
         (Inl e, b1) \<and>
       InsertProject (DBPool h) (user_ID user) (GetProjectName h entry') (GetProjectName h entry') b1 =
         (Inl err, b2) \<longrightarrow>
         res = Inl (Error err) \<and> s' = s \<and> getProject s' = None) \<and>
      (FindProjectByName (DBPool h) (user_ID user) (GetProjectName h entry') (backend w) =
         (Inl e, b1) \<and>
       InsertProject (DBPool h) (user_ID user) (GetProjectName h entry') (GetProjectName h entry') b1 =
         (Inr i, b2) \<and>
       FindProjectByName (DBPool h) (user_ID user) (GetProjectName h entry') b2 = (Inl err, b3) \<longrightarrow>
         res = Inl (Error err) \<and> s' = s \<and> getProject s' = None)) \<and>
   (Write h s entry w = (Inl f, entry', s', w') \<longrightarrow>
      s' = s \<or>
      (getProject s = None \<and>
       (\<exists>user project. getUser s = Inr user \<and>
          s' = s\<lparr>Context := (Context s)\<lparr>ctxProjectKey := Some (Some project)\<rparr>\<rparr> \<and>
          (filter is_project_call (calls w') =
             filter is_project_call (calls w) @
               [DB_FindProjectByName (user_ID user) (GetProjectName h entry'),
                DB_UpdateProject (user_ID user) (GetProjectName h entry')] \<or>
           filter is_project_call (calls w') =
             filter is_project_call (calls w) @
               [DB_FindProjectByName (user_ID user) (GetProjectName h entry'),
                DB_InsertProject (user_ID user) (GetProjectName h entry') (GetProjectName h entry'),
                DB_FindProjectByName (user_ID user) (GetProjectName h entry')])))) \<and>
   (Validate h s w = (Some verr, sv, wv) \<longrightarrow>
      sv = s \<or>
      (\<exists>bucket. sv = s\<lparr>Context := (Context s)\<lparr>ctxBucketKey := Some bucket\<rparr>\<rparr> \<and>
         calls wv \<noteq> [] \<and> last (calls wv) = Storage_GetBucketQuota bucket)) \<and>
   (KeyText h s = Inr key \<and>
    FindUserForKey (DBPool h) (sess_User s) key (backend w) = (Inr vuser, c1) \<and>
    user_Name vuser \<noteq> [] \<and>
    HasFeatureForUser (DBPool h) (user_ID vuser) ''pgs'' c1 = (True, c2) \<and>
    UpsertBucket (Storage h) (GetAssetBucketName h (user_ID vuser)) c2 = (Inr vbucket, c3) \<and>
    GetBucketQuota (Storage h) vbucket c3 = (Inl qerr, c4) \<longrightarrow>
      Validate h s w =
        (Some qerr, s\<lparr>Context := (Context s)\<lparr>ctxBucketKey := Some vbucket\<rparr>\<rparr>,
         \<lparr>backend = c4,
          calls = calls w @ [DB_FindUserForKey (sess_User s) key,
                             DB_HasFeatureForUser (user_ID vuser) ''pgs'',
                             Storage_UpsertBucket (GetAssetBucketName h (user_ID vuser)),
                             Storage_GetBucketQuota vbucket]\<rparr>))"
proof (intro conjI impI)
  assume A: "getUser s = Inr user \<and> getBucket s = Inr bucket \<and> getProject s = None \<and>
    Write h s entry w = (res, entry', s', w')"
  then have U: "getUser s = Inr user" and B: "getBucket s = Inr bucket"
    and N: "getProject s = None" and W: "Write h s entry w = (res, entry', s', w')"
    by simp_all
  {
    assume F: "FindProjectByName (DBPool h) (user_ID user) (GetProjectName h entry') (backend w) =
         (Inr project, b1) \<and>
       UpdateProject (DBPool h) (user_ID user) (GetProjectName h entry') b1 = (Some err, b2)"
    note X = Write_uncached [OF U B N W
               Write_project_update_fails [OF conjunct1 [OF F] conjunct2 [OF F], of s]]
    from X N show "res = Inl (Error err)" and "s' = s" and "getProject s' = None" by simp_all
  }
  {
    assume F: "FindProjectByName (DBPool h) (user_ID user) (GetProjectName h entry') (backend w) =
         (Inl e, b1) \<and>
       InsertProject (DBPool h) (user_ID user) (GetProjectName h entry') (GetProjectName h entry') b1 =
         (Inl err, b2)"
    note X = Write_uncached [OF U B N W
               Write_project_insert_fails [OF conjunct1 [OF F] conjunct2 [OF F], of s]]
    from X N show "res = Inl (Error err)" and "s' = s" and "getProject s' = None" by simp_all
  }
  {
    assume F: "FindProjectByName (DBPool h) (user_ID user) (GetProjectName h entry') (backend w) =
         (Inl e, b1) \<and>
       InsertProject (DBPool h) (user_ID user) (GetProjectName h entry') (GetProjectName h entry') b1 =
         (Inr i, b2) \<and>
       FindProjectByName (DBPool h) (user_ID user) (GetProjectName h entry') b2 = (Inl err, b3)"
    then have F1: "FindProjectByName (DBPool h) (user_ID user) (GetProjectName h entry') (backend w) =
         (Inl e, b1)"
      and F2: "InsertProject (DBPool h) (user_ID user) (GetProjectName h entry')
                 (GetProjectName h entry') b1 = (Inr i, b2)"
      and F3: "FindProjectByName (DBPool h) (user_ID user) (GetProjectName h entry') b2 =
                 (Inl err, b3)"
      by simp_all
    note X = Write_uncached [OF U B N W Write_project_refetch_fails [OF F1 F2 F3, of s]]
    from X N show "res = Inl (Error err)" and "s' = s" and "getProject s' = None" by simp_all
  }
next
  assume "Write h s entry w = (Inl f, entry', s', w')"
  from Write_session_cases [OF this]
  show "s' = s \<or>
      (getProject s = None \<and>
       (\<exists>user project. getUser s = Inr user \<and>
          s' = s\<lparr>Context := (Context s)\<lparr>ctxProjectKey := Some (Some project)\<rparr>\<rparr> \<and>
          (filter is_project_call (calls w') =
             filter is_project_call (calls w) @
               [DB_FindProjectByName (user_ID user) (GetProjectName h entry'),
                DB_UpdateProject (user_ID user) (GetProjectName h entry')] \<or>
           filter is_project_call (calls w') =
             filter is_project_call (calls w) @
               [DB_FindProjectByName (user_ID user) (GetProjectName h entry'),
                DB_InsertProject (user_ID user) (GetProjectName h entry') (GetProjectName h entry'),
                DB_FindProjectByName (user_ID user) (GetProjectName h entry')])))"
    by blast
next
  assume "Validate h s w = (Some verr, sv, wv)"
  then show "sv = s \<or>
      (\<exists>bucket. sv = s\<lparr>Context := (Context s)\<lparr>ctxBucketKey := Some bucket\<rparr>\<rparr> \<and>
         calls wv \<noteq> [] \<and> last (calls wv) = Storage_GetBucketQuota bucket)"
    by (auto simp: Validate_def Let_def invoke_def
             split: sum.splits prod.splits if_splits bool.splits)
next
  assume "KeyText h s = Inr key \<and>
    FindUserForKey (DBPool h) (sess_User s) key (backend w) = (Inr vuser, c1) \<and>
    user_Name vuser \<noteq> [] \<and>
    HasFeatureForUser (DBPool h) (user_ID vuser) ''pgs'' c1 = (True, c2) \<and>
    UpsertBucket (Storage h) (GetAssetBucketName h (user_ID vuser)) c2 = (Inr vbucket, c3) \<and>
    GetBucketQuota (Storage h) vbucket c3 = (Inl qerr, c4)"
  then show "Validate h s w =
        (Some qerr, s\<lparr>Context := (Context s)\<lparr>ctxBucketKey := Some vbucket\<rparr>\<rparr>,
         \<lparr>backend = c4,
          calls = calls w @ [DB_FindUserForKey (sess_User s) key,
                             DB_HasFeatureForUser (user_ID vuser) ''pgs'',
                             Storage_UpsertBucket (GetAssetBucketName h (user_ID vuser)),
                             Storage_GetBucketQuota vbucket]\<rparr>)"
    by (simp add: Validate_def Let_def invoke_def)
qed


theorem error_paths_session_witness:
  "Write example_handler_update_fails example_validated example_entry1 example_world_blog =
     (Inl (Error ''update failed''), example_entry1\<lparr>Size := 3\<rparr>, example_validated,
      \<lparr>backend = [''blog''],
       calls = [DB_FindProjectByName ''1'' ''blog'', DB_UpdateProject ''1'' ''blog'']\<rparr>) \<and>
   Write example_handler_insert_fails example_validated example_entry1 example_world =
     (Inl (Error ''insert failed''), example_entry1\<lparr>Size := 3\<rparr>, example_validated,
      \<lparr>backend = [],
       calls = [DB_FindProjectByName ''1'' ''blog'', DB_InsertProject ''1'' ''blog'' ''blog'']\<rparr>) \<and>
   Write example_handler_refetch_fails example_validated example_entry1 example_world =
     (Inl (Error ''project not found''), example_entry1\<lparr>Size := 3\<rparr>, example_validated,
      \<lparr>backend = [],
       calls = [DB_FindProjectByName ''1'' ''blog'', DB_InsertProject ''1'' ''blog'' ''blog'',
                DB_FindProjectByName ''1'' ''blog'']\<rparr>) \<and>
   getProject example_validated = None \<and>
   Write example_handler_write_fails example_validated example_entry1 example_world =
     (Inl (Error ''quota exceeded''), example_entry1\<lparr>Size := 3\<rparr>, example_with_project,
      \<lparr>backend = [''blog''],
       calls = [DB_FindProjectByName ''1'' ''blog'', DB_InsertProject ''1'' ''blog'' ''blog'',
                DB_FindProjectByName ''1'' ''blog'',
                Handler_writeAsset
                  \<lparr>data_FileEntry = example_entry1\<lparr>Size := 3\<rparr>, Text = [1, 2, 3],
                   data_User = \<lparr>user_ID = ''1'', user_Name = ''alice''\<rparr>,
                   data_Bucket = \<lparr>bucket_Name = ''static-1''\<rparr>, BucketQuota = 0\<rparr>]\<rparr>) \<and>
   example_with_project \<noteq> example_validated \<and>
   (\<exists>project. example_with_project =
      example_validated\<lparr>Context := (Context example_validated)
        \<lparr>ctxProjectKey := Some (Some project)\<rparr>\<rparr>) \<and>
   Validate example_handler_no_quota example_session example_world =
     (Some ''quota unavailable'',
      example_session\<lparr>Context := (Context example_session)
         \<lparr>ctxBucketKey := Some \<lparr>bucket_Name = ''static-1''\<rparr>\<rparr>\<rparr>,
      \<lparr>backend = [],
       calls = [DB_FindUserForKey ''alice'' ''ssh-ed25519 AAAA'',
                DB_HasFeatureForUser ''1'' ''pgs'',
                Storage_UpsertBucket ''static-1'',
                Storage_GetBucketQuota \<lparr>bucket_Name = ''static-1''\<rparr>]\<rparr>) \<and>
   example_session\<lparr>Context := (Context example_session)
         \<lparr>ctxBucketKey := Some \<lparr>bucket_Name = ''static-1''\<rparr>\<rparr>\<rparr> \<noteq> example_session"
proof -
  have D1: "example_with_project \<noteq> example_validated"
    and D2: "example_session\<lparr>Context := (Context example_session)
         \<lparr>ctxBucketKey := Some \<lparr>bucket_Name = ''static-1''\<rparr>\<rparr>\<rparr> \<noteq> example_session"
    by (simp_all add: example_defs)
  have W1: "Write example_handler_update_fails example_validated example_entry1 example_world_blog =
     (Inl (Error ''update failed''), example_entry1\<lparr>Size := 3\<rparr>, example_validated,
      \<lparr>backend = [''blog''],
       calls = [DB_FindProjectByName ''1'' ''blog'', DB_UpdateProject ''1'' ''blog'']\<rparr>)"
    using example_update_fails_write [of "[]"] by (simp add: example_world_blog_def)
  have P1: "getUser example_validated = Inr \<lparr>user_ID = ''1'', user_Name = ''alice''\<rparr> \<and>
            getBucket example_validated = Inr \<lparr>bucket_Name = ''static-1''\<rparr> \<and>
            getProject example_validated = None \<and>
            Write example_handler_update_fails example_validated example_entry1 example_world_blog =
              (Inl (Error ''update failed''), example_entry1\<lparr>Size := 3\<rparr>, example_validated,
               \<lparr>backend = [''blog''],
                calls = [DB_FindProjectByName ''1'' ''blog'', DB_UpdateProject ''1'' ''blog'']\<rparr>)"
    using W1 by (simp add: example_getters)
  have F1: "FindProjectByName (DBPool example_handler_update_fails) (user_ID \<lparr>user_ID = ''1'', user_Name = ''alice''\<rparr>)
              (GetProjectName example_handler_update_fails (example_entry1\<lparr>Size := 3\<rparr>)) (backend example_world_blog) =
              (Inr \<lparr>project_UserID = ''1'', project_Name = ''blog'', project_ProjectDir = ''blog''\<rparr>, [''blog'']) \<and>
            UpdateProject (DBPool example_handler_update_fails) (user_ID \<lparr>user_ID = ''1'', user_Name = ''alice''\<rparr>)
              (GetProjectName example_handler_update_fails (example_entry1\<lparr>Size := 3\<rparr>)) [''blog''] =
              (Some ''update failed'', [''blog''])"
    by (simp add: example_defs)
  note C1 = error_paths_session [THEN conjunct1, THEN mp, OF P1, THEN conjunct1, THEN mp, OF F1]
  have P2: "getUser example_validated = Inr \<lparr>user_ID = ''1'', user_Name = ''alice''\<rparr> \<and>
            getBucket example_validated = Inr \<lparr>bucket_Name = ''static-1''\<rparr> \<and>
            getProject example_validated = None \<and>
            Write example_handler_insert_fails example_validated example_entry1 example_world =
              (Inl (Error ''insert failed''), example_entry1\<lparr>Size := 3\<rparr>, example_validated,
               \<lparr>backend = [],
                calls = [DB_FindProjectByName ''1'' ''blog'',
                         DB_InsertProject ''1'' ''blog'' ''blog'']\<rparr>)"
    by (simp add: example_getters example_insert_fails_write)
  have F2: "FindProjectByName (DBPool example_handler_insert_fails) (user_ID \<lparr>user_ID = ''1'', user_Name = ''alice''\<rparr>)
              (GetProjectName example_handler_insert_fails (example_entry1\<lparr>Size := 3\<rparr>)) (backend example_world) =
              (Inl ''project not found'', []) \<and>
            InsertProject (DBPool example_handler_insert_fails) (user_ID \<lparr>user_ID = ''1'', user_Name = ''alice''\<rparr>)
              (GetProjectName example_handler_insert_fails (example_entry1\<lparr>Size := 3\<rparr>)) (GetProjectName example_handler_insert_fails (example_entry1\<lparr>Size := 3\<rparr>)) [] =
              (Inl ''insert failed'', [])"
    by (simp add: example_defs)
  note C2 = error_paths_session [THEN conjunct1, THEN mp, OF P2, THEN conjunct2, THEN conjunct1,
              THEN mp, OF F2]
  have P3: "getUser example_validated = Inr \<lparr>user_ID = ''1'', user_Name = ''alice''\<rparr> \<and>
            getBucket example_validated = Inr \<lparr>bucket_Name = ''static-1''\<rparr> \<and>
            getProject example_validated = None \<and>
            Write example_handler_refetch_fails example_validated example_entry1 example_world =
              (Inl (Error ''project not found''), example_entry1\<lparr>Size := 3\<rparr>,
               example_validated,
               \<lparr>backend = [],
                calls = [DB_FindProjectByName ''1'' ''blog'',
                         DB_InsertProject ''1'' ''blog'' ''blog'',
                         DB_FindProjectByName ''1'' ''blog'']\<rparr>)"
    by (simp add: example_getters example_refetch_fails_write)
  have F3: "FindProjectByName (DBPool example_handler_refetch_fails) (user_ID \<lparr>user_ID = ''1'', user_Name = ''alice''\<rparr>)
              (GetProjectName example_handler_refetch_fails (example_entry1\<lparr>Size := 3\<rparr>)) (backend example_world) =
              (Inl ''project not found'', []) \<and>
            InsertProject (DBPool example_handler_refetch_fails) (user_ID \<lparr>user_ID = ''1'', user_Name = ''alice''\<rparr>)
              (GetProjectName example_handler_refetch_fails (example_entry1\<lparr>Size := 3\<rparr>)) (GetProjectName example_handler_refetch_fails (example_entry1\<lparr>Size := 3\<rparr>)) [] =
              (Inr ''id'', []) \<and>
            FindProjectByName (DBPool example_handler_refetch_fails) (user_ID \<lparr>user_ID = ''1'', user_Name = ''alice''\<rparr>)
              (GetProjectName example_handler_refetch_fails (example_entry1\<lparr>Size := 3\<rparr>)) [] =
              (Inl ''project not found'', [])"
    by (simp add: example_defs)
  note C3 = error_paths_session [THEN conjunct1, THEN mp, OF P3, THEN conjunct2, THEN conjunct2,
              THEN mp, OF F3]
  note C4 = error_paths_session [THEN conjunct2, THEN conjunct1, THEN mp, OF example_failed_write]
  note C5 = error_paths_session [THEN conjunct2, THEN conjunct2, THEN conjunct1, THEN mp,
              OF example_failed_validate]
  have F6: "KeyText example_handler_no_quota example_session = Inr ''ssh-ed25519 AAAA'' \<and>
            FindUserForKey (DBPool example_handler_no_quota) (sess_User example_session)
              ''ssh-ed25519 AAAA'' (backend example_world) = (Inr \<lparr>user_ID = ''1'', user_Name = ''alice''\<rparr>, []) \<and>
            user_Name \<lparr>user_ID = ''1'', user_Name = ''alice''\<rparr> \<noteq> [] \<and>
            HasFeatureForUser (DBPool example_handler_no_quota) (user_ID \<lparr>user_ID = ''1'', user_Name = ''alice''\<rparr>) ''pgs'' [] =
              (True, []) \<and>
            UpsertBucket (Storage example_handler_no_quota)
              (GetAssetBucketName example_handler_no_quota (user_ID \<lparr>user_ID = ''1'', user_Name = ''alice''\<rparr>)) [] = (Inr \<lparr>bucket_Name = ''static-1''\<rparr>, []) \<and>
            GetBucketQuota (Storage example_handler_no_quota) \<lparr>bucket_Name = ''static-1''\<rparr> [] =
              (Inl ''quota unavailable'', [])"
    by (simp add: example_defs)
  note C6 = error_paths_session [THEN conjunct2, THEN conjunct2, THEN conjunct2, THEN mp, OF F6]
  have E: "\<exists>project. example_with_project =
      example_validated\<lparr>Context := (Context example_validated)
        \<lparr>ctxProjectKey := Some (Some project)\<rparr>\<rparr>"
    using C4 D1 by blast
  have V: "Validate example_handler_no_quota example_session example_world =
     (Some ''quota unavailable'',
      example_session\<lparr>Context := (Context example_session)
         \<lparr>ctxBucketKey := Some \<lparr>bucket_Name = ''static-1''\<rparr>\<rparr>\<rparr>,
      \<lparr>backend = [],
       calls = [DB_FindUserForKey ''alice'' ''ssh-ed25519 AAAA'',
                DB_HasFeatureForUser ''1'' ''pgs'',
                Storage_UpsertBucket ''static-1'',
                Storage_GetBucketQuota \<lparr>bucket_Name = ''static-1''\<rparr>]\<rparr>)"
    using C6 by (simp add: example_defs)
  from C1 C2 C3 C5 have True by simp
  with W1 P2 P3 example_getters(4) example_failed_write D1 E V D2 show ?thesis
    by simp
qed

text \<open>
  The claim as stated asks every error path of \<open>Validate\<close> to leave the cached
  identity, bucket and quota consistent. When the quota read fails, the bucket has
  already been stored: the context then holds a bucket without identity and without
  quota.
\<close>

theorem Validate_quota_failure_counterexample:
  "fst (Validate example_handler_no_quota example_session example_world) =
     Some ''quota unavailable'' \<and>
   Context example_session =
     \<lparr>ctxUserKey = None, ctxBucketKey = None, ctxBucketQuotaKey = None, ctxProjectKey = None\<rparr> \<and>
   Context (fst (snd (Validate example_handler_no_quota example_session example_world))) =
     \<lparr>ctxUserKey = None, ctxBucketKey = Some \<lparr>bucket_Name = ''static-1''\<rparr>,
      ctxBucketQuotaKey = None, ctxProjectKey = None\<rparr>"
  by (simp add: example_failed_validate) (simp add: example_session_def)

end
